theory Spec2Isabelle
  imports Main "HOL-Library.Word" "HOL-Library.Signed_Division"
begin

unbundle bit_operations_syntax

section \<open>Bytes, errors and outcomes\<close>

type_synonym byte = "8 word"
type_synonym bytes = "byte list"

text \<open>
  The error values of the Go code. \<open>InvalidArgumentError\<close>, \<open>UnsupportedError\<close>,
  \<open>StructuralError\<close> and \<open>ErrDummyPrivateKey\<close> are the typed errors of package
  \<open>openpgp/errors\<close>; \<open>PlainError\<close> is an error made with \<open>goerrors.New\<close>, which has
  none of these types; \<open>ErrUnexpectedEOF\<close> is what a short read gives; \<open>ExternalError\<close>
  is an error handed back by a primitive or a collaborator outside the two source files.
\<close>

datatype error =
    InvalidArgumentError string
  | UnsupportedError string
  | StructuralError string
  | ErrDummyPrivateKey string
  | PlainError string
  | ErrUnexpectedEOF
  | ExternalError string

text \<open>
  A Go function either returns or panics (an index or a slice bound out of range, a nil
  dereference). \<open>Panics\<close> is the run-time panic, \<open>Returns\<close> carries what is returned.
\<close>

datatype 'a outcome = Returns 'a | Panics

section \<open>The session-key checksum (encrypted\_key.go)\<close>

text \<open>
  \<open>checksumKeyMaterial\<close>: a \<open>uint16\<close> accumulator to which every byte of the key is
  added, with the wrap-around of \<open>uint16\<close> addition.
\<close>

definition checksumKeyMaterial :: "bytes \<Rightarrow> 16 word" where
  "checksumKeyMaterial key = foldl (\<lambda>checksum v. checksum + ucast v) 0 key"

text \<open>
  \<open>decodeChecksumKey\<close>: \<open>msg[:len(msg)-2]\<close> panics when \<open>msg\<close> has fewer than two
  bytes. Otherwise the key is returned in both cases, together with the error when the
  checksums differ.
\<close>

definition decodeChecksumKey :: "bytes \<Rightarrow> (bytes \<times> error option) outcome" where
  "decodeChecksumKey msg =
     (if length msg < 2 then Panics
      else
        let key = take (length msg - 2) msg;
            expectedChecksum =
              push_bit 8 (ucast (msg ! (length msg - 2)) :: 16 word)
                OR ucast (msg ! (length msg - 1));
            checksum = checksumKeyMaterial key
        in Returns (key,
             if checksum \<noteq> expectedChecksum
             then Some (StructuralError ''session key checksum is incorrect'')
             else None))"

text \<open>
  \<open>encodeChecksumKey\<close>: \<open>copy\<close> writes as many bytes as fit; the two indexed writes
  panic when the buffer is too short. The buffer is returned updated.
\<close>

definition encodeChecksumKey :: "bytes \<Rightarrow> bytes \<Rightarrow> bytes outcome" where
  "encodeChecksumKey buffer key =
     (let n = min (length buffer) (length key);
          buffer1 = take n key @ drop n buffer;
          checksum = checksumKeyMaterial key
      in if length key + 1 < length buffer
         then Returns (buffer1[length key := ucast (drop_bit 8 checksum),
                               length key + 1 := ucast checksum])
         else Panics)"

section \<open>The data model of the encrypted-key packet\<close>

text \<open>
  \<open>PublicKeyAlgorithm\<close> is a \<open>uint8\<close> with named constants. The constants are
  declared outside the two source files, so their numeric values are not fixed here: the
  named constants are the constructors, \<open>PubKeyAlgoOther\<close> is any other value of the
  type, and the conversions from and to the octet are collaborators (see below).
\<close>

datatype PublicKeyAlgorithm =
    PubKeyAlgoRSA
  | PubKeyAlgoRSAEncryptOnly
  | PubKeyAlgoRSASignOnly
  | PubKeyAlgoElGamal
  | PubKeyAlgoDSA
  | PubKeyAlgoECDH
  | PubKeyAlgoECDSA
  | PubKeyAlgoEdDSA
  | PubKeyAlgoX25519
  | PubKeyAlgoX448
  | PubKeyAlgoKyber768X25519
  | PubKeyAlgoKyber1024X448
  | PubKeyAlgoKyber768P256
  | PubKeyAlgoKyber1024P384
  | PubKeyAlgoKyber768Brainpool256
  | PubKeyAlgoKyber1024Brainpool384
  | PubKeyAlgoDilithium3Ed25519
  | PubKeyAlgoDilithium5Ed448
  | PubKeyAlgoDilithium3p256
  | PubKeyAlgoDilithium5p384
  | PubKeyAlgoDilithium3Brainpool256
  | PubKeyAlgoDilithium5Brainpool384
  | PubKeyAlgoSphincsPlusSha2
  | PubKeyAlgoSphincsPlusShake
  | PubKeyAlgoOther byte

text \<open>\<open>CipherFunction\<close>, likewise a \<open>uint8\<close> with named constants.\<close>

datatype CipherFunction =
    CipherAES128
  | CipherAES192
  | CipherAES256
  | CipherOther byte

text \<open>
  \<open>encoding.Field\<close>: the three implementations the packet uses. \<open>Bytes\<close> is the
  payload of a field.
\<close>

datatype Field =
    MPI bytes "16 word"
  | OID bytes
  | OctetArray bytes

fun Bytes :: "Field \<Rightarrow> bytes" where
  "Bytes (MPI bs bitLength) = bs"
| "Bytes (OID bs) = bs"
| "Bytes (OctetArray bs) = bs"

text \<open>
  \<open>EncryptedKey\<close>. A nil slice, interface or pointer is \<open>None\<close>. \<open>Key\<close> is \<open>None\<close>
  until a successful \<open>Decrypt\<close> sets it.
\<close>

record EncryptedKey =
  Version :: int
  KeyId :: "64 word"
  KeyVersion :: int
  KeyFingerprint :: bytes
  Algo :: PublicKeyAlgorithm
  CipherFunc :: CipherFunction
  Key :: "bytes option"
  encryptedMPI1 :: "Field option"
  encryptedMPI2 :: "Field option"
  encryptedMPI3 :: "Field option"
  ephemeralPublicX25519 :: "bytes option"
  ephemeralPublicX448 :: "bytes option"
  encryptedSession :: bytes

text \<open>
  \<open>PublicKey\<close> and \<open>PrivateKey\<close> (package \<open>packet\<close>), with the fields this code
  reads. The key material behind \<open>PublicKey.PublicKey\<close> and \<open>PrivateKey.PrivateKey\<close> is
  opaque (\<open>'pk\<close>, \<open>'sk\<close>): its dynamic type is taken to fit \<open>PubKeyAlgo\<close>, so the type
  assertions of the source succeed. \<open>Dummy\<close> is the result of \<open>priv.Dummy()\<close>.
\<close>

record 'pk PublicKey =
  pubVersion :: int
  pubKeyId :: "64 word"
  Fingerprint :: bytes
  PubKeyAlgo :: PublicKeyAlgorithm
  oid :: "Field option"
  PublicKeyMaterial :: 'pk

record ('pk, 'sk) PrivateKey = "'pk PublicKey" +
  PrivateKeyMaterial :: 'sk
  Dummy :: bool

section \<open>Collaborators outside the source files\<close>

text \<open>
  The primitives and tables that the code calls and that other packages define. They are
  parameters of the model: a theorem holds for all of them unless it states an assumption.
  \<^item> \<open>algoOfByte\<close>, \<open>byteOfAlgo\<close>, \<open>cipherOfByte\<close>, \<open>byteOfCipher\<close>: the conversions
    \<open>PublicKeyAlgorithm(b)\<close>, \<open>byte(a)\<close>, \<open>CipherFunction(b)\<close>, \<open>byte(c)\<close>, that is
    the numeric values of the constants.
  \<^item> \<open>IsSupported\<close>: \<open>CipherFunction.IsSupported\<close>.
  \<^item> \<open>serializeHeader\<close>: the octets \<open>serializeHeader\<close> writes for a packet of type
    \<open>packetTypeEncryptedKey\<close> and the given length.
  \<^item> the encryption primitives take the random source \<open>'r\<close> of \<open>config.Random()\<close>;
    \<open>rsaDecrypt\<close> stands for \<open>k.Decrypt(rand, padToKeySize(pub, c), nil)\<close>.
  \<^item> \<open>publicKeyHash\<close>: SHA3-256 over \<open>SerializeForHash\<close> of the public key, or the
    error of \<open>SerializeForHash\<close>.
  \<^item> \<open>x25519EncodeFields\<close>, \<open>x25519EncodedFieldsLength\<close>, \<open>x25519DecodeFields\<close> and
    their \<open>x448\<close> namesakes: the envelope codecs of packages \<open>x25519\<close> and \<open>x448\<close>.
    Encoding gives the octets written (ephemeral key, ciphertext, cipher octet, whether
    v6); decoding takes the unread octets and gives the ephemeral key, the ciphertext, the
    cipher octet and the octets left unread, or an error.
\<close>

record ('r, 'pk, 'sk) Collaborators =
  algoOfByte :: "byte \<Rightarrow> PublicKeyAlgorithm"
  byteOfAlgo :: "PublicKeyAlgorithm \<Rightarrow> byte"
  cipherOfByte :: "byte \<Rightarrow> CipherFunction"
  byteOfCipher :: "CipherFunction \<Rightarrow> byte"
  IsSupported :: "CipherFunction \<Rightarrow> bool"
  serializeHeader :: "int \<Rightarrow> bytes"
  rsaEncrypt :: "'r \<Rightarrow> 'pk \<Rightarrow> bytes \<Rightarrow> error + bytes"
  rsaDecrypt :: "'sk \<Rightarrow> bytes \<Rightarrow> error + bytes"
  elgamalEncrypt :: "'r \<Rightarrow> 'pk \<Rightarrow> bytes \<Rightarrow> error + nat \<times> nat"
  elgamalDecrypt :: "'sk \<Rightarrow> nat \<Rightarrow> nat \<Rightarrow> error + bytes"
  ecdhEncrypt :: "'r \<Rightarrow> 'pk \<Rightarrow> bytes \<Rightarrow> bytes \<Rightarrow> bytes \<Rightarrow> error + bytes \<times> bytes"
  ecdhDecrypt :: "'sk \<Rightarrow> bytes \<Rightarrow> bytes \<Rightarrow> bytes \<Rightarrow> bytes \<Rightarrow> error + bytes"
  x25519Encrypt :: "'r \<Rightarrow> 'pk \<Rightarrow> bytes \<Rightarrow> error + bytes \<times> bytes"
  x25519Decrypt :: "'sk \<Rightarrow> bytes option \<Rightarrow> bytes \<Rightarrow> error + bytes"
  x448Encrypt :: "'r \<Rightarrow> 'pk \<Rightarrow> bytes \<Rightarrow> error + bytes \<times> bytes"
  x448Decrypt :: "'sk \<Rightarrow> bytes option \<Rightarrow> bytes \<Rightarrow> error + bytes"
  kyberEncrypt :: "'r \<Rightarrow> 'pk \<Rightarrow> bytes \<Rightarrow> bytes \<Rightarrow> error + bytes \<times> bytes \<times> bytes"
  kyberDecrypt :: "'sk \<Rightarrow> bytes \<Rightarrow> bytes \<Rightarrow> bytes \<Rightarrow> bytes \<Rightarrow> error + bytes"
  publicKeyHash :: "'pk PublicKey \<Rightarrow> error + bytes"
  x25519EncodeFields :: "bytes \<Rightarrow> bytes \<Rightarrow> byte \<Rightarrow> bool \<Rightarrow> bytes"
  x25519EncodedFieldsLength :: "bytes \<Rightarrow> bool \<Rightarrow> int"
  x25519DecodeFields :: "bytes \<Rightarrow> bool \<Rightarrow> error + bytes \<times> bytes \<times> byte \<times> bytes"
  x448EncodeFields :: "bytes \<Rightarrow> bytes \<Rightarrow> byte \<Rightarrow> bool \<Rightarrow> bytes"
  x448EncodedFieldsLength :: "bytes \<Rightarrow> bool \<Rightarrow> int"
  x448DecodeFields :: "bytes \<Rightarrow> bool \<Rightarrow> error + bytes \<times> bytes \<times> byte \<times> bytes"

text \<open>\<open>new(big.Int).SetBytes\<close>: the big-endian value of the bytes.\<close>

definition SetBytes :: "bytes \<Rightarrow> nat" where
  "SetBytes bs = foldl (\<lambda>acc b. acc * 256 + unat b) 0 bs"

text \<open>
  Modelled from the spec: \<open>EncodedBytes\<close> of a field; package \<open>internal/encoding\<close> is
  not among the source files. Section 6 gives the encodings: an MPI is its two-octet
  big-endian bit length followed by its bytes, an OID-length field is a one-octet length
  followed by that many bytes, an octet array is its raw bytes.
\<close>

fun EncodedBytes :: "Field \<Rightarrow> bytes" where
  "EncodedBytes (MPI bs bitLength) = [ucast (drop_bit 8 bitLength), ucast bitLength] @ bs"
| "EncodedBytes (OID bs) = [word_of_nat (length bs)] @ bs"
| "EncodedBytes (OctetArray bs) = bs"

text \<open>
  The case label \<open>PubKeyAlgoKyber768X25519, PubKeyAlgoKyber1024X448, PubKeyAlgoKyber768P256,
  PubKeyAlgoKyber1024P384, PubKeyAlgoKyber768Brainpool256, PubKeyAlgoKyber1024Brainpool384\<close>
  of the switches in \<open>Decrypt\<close>, \<open>Serialize\<close> and \<open>SerializeEncryptedKeyAEAD\<close>.
\<close>

definition kyberAlgorithms :: "PublicKeyAlgorithm set" where
  "kyberAlgorithms =
     {PubKeyAlgoKyber768X25519, PubKeyAlgoKyber1024X448, PubKeyAlgoKyber768P256,
      PubKeyAlgoKyber1024P384, PubKeyAlgoKyber768Brainpool256,
      PubKeyAlgoKyber1024Brainpool384}"

section \<open>Decrypt (encrypted\_key.go)\<close>

text \<open>
  The messages of the errors that the source builds with \<open>strconv\<close> or \<open>hex\<close> keep
  their constant prefix here; the formatted key id, fingerprint or algorithm number
  appended to it is left out.
\<close>

text \<open>
  The first switch of \<open>Decrypt\<close>: the call of the primitive, giving the plaintext
  \<open>b\<close> or the error. Calling \<open>Bytes\<close> or \<open>EncodedBytes\<close> on a nil field panics.
\<close>

definition decryptPrimitive ::
  "('r, 'pk, 'sk) Collaborators \<Rightarrow> EncryptedKey \<Rightarrow> ('pk, 'sk) PrivateKey \<Rightarrow>
     (error + bytes) outcome" where
  "decryptPrimitive C e priv =
     (let rsa = (case encryptedMPI1 e of
                   None \<Rightarrow> Panics
                 | Some m1 \<Rightarrow> Returns (rsaDecrypt C (PrivateKeyMaterial priv) (Bytes m1)));
          kyber = (case (encryptedMPI1 e, encryptedMPI2 e, encryptedMPI3 e) of
                     (Some m1, Some m2, Some m3) \<Rightarrow>
                       (case publicKeyHash C (PublicKey.truncate priv) of
                          Inl err \<Rightarrow> Returns (Inl err)
                        | Inr h \<Rightarrow>
                            Returns (kyberDecrypt C (PrivateKeyMaterial priv)
                                       (Bytes m2) (Bytes m1) (Bytes m3) h))
                   | _ \<Rightarrow> Panics)
      in case PubKeyAlgo priv of
           PubKeyAlgoRSA \<Rightarrow> rsa
         | PubKeyAlgoRSAEncryptOnly \<Rightarrow> rsa
         | PubKeyAlgoElGamal \<Rightarrow>
             (case (encryptedMPI1 e, encryptedMPI2 e) of
                (Some m1, Some m2) \<Rightarrow>
                  Returns (elgamalDecrypt C (PrivateKeyMaterial priv)
                             (SetBytes (Bytes m1)) (SetBytes (Bytes m2)))
              | _ \<Rightarrow> Panics)
         | PubKeyAlgoECDH \<Rightarrow>
             (case (encryptedMPI1 e, encryptedMPI2 e, oid priv) of
                (Some m1, Some m2, Some curveOid) \<Rightarrow>
                  Returns (ecdhDecrypt C (PrivateKeyMaterial priv)
                             (Bytes m1) (Bytes m2) (EncodedBytes curveOid) (Fingerprint priv))
              | _ \<Rightarrow> Panics)
         | PubKeyAlgoX25519 \<Rightarrow>
             Returns (x25519Decrypt C (PrivateKeyMaterial priv)
                        (ephemeralPublicX25519 e) (encryptedSession e))
         | PubKeyAlgoX448 \<Rightarrow>
             Returns (x448Decrypt C (PrivateKeyMaterial priv)
                        (ephemeralPublicX448 e) (encryptedSession e))
         | PubKeyAlgoKyber768X25519 \<Rightarrow> kyber
         | PubKeyAlgoKyber1024X448 \<Rightarrow> kyber
         | PubKeyAlgoKyber768P256 \<Rightarrow> kyber
         | PubKeyAlgoKyber1024P384 \<Rightarrow> kyber
         | PubKeyAlgoKyber768Brainpool256 \<Rightarrow> kyber
         | PubKeyAlgoKyber1024Brainpool384 \<Rightarrow> kyber
         | _ \<Rightarrow>
             Returns (Inl (InvalidArgumentError
               ''cannot decrypt encrypted session key with private key of type '')))"

text \<open>
  The second switch of \<open>Decrypt\<close>: the plaintext \<open>b\<close> is stripped of its envelope.
  \<open>b[0]\<close> panics on an empty \<open>b\<close>; \<open>e.CipherFunc\<close> is assigned before the check of
  \<open>IsSupported\<close>. For the algorithms without a case \<open>key\<close> keeps its zero value nil, and
  that is what \<open>e.Key\<close> is set to.
\<close>

definition classicalEnvelope ::
  "('r, 'pk, 'sk) Collaborators \<Rightarrow> EncryptedKey \<Rightarrow> bytes \<Rightarrow>
     (EncryptedKey \<times> error option) outcome" where
  "classicalEnvelope C e b =
     (let decode = (\<lambda>e1 msg.
            case decodeChecksumKey msg of
              Panics \<Rightarrow> Panics
            | Returns (key, Some err) \<Rightarrow> Returns (e1, Some err)
            | Returns (key, None) \<Rightarrow> Returns (e1\<lparr>Key := Some key\<rparr>, None))
      in if Version e < 6
         then (case b of
                 [] \<Rightarrow> Panics
               | b0 # rest \<Rightarrow>
                   let e1 = e\<lparr>CipherFunc := cipherOfByte C b0\<rparr>
                   in if \<not> IsSupported C (CipherFunc e1)
                      then Returns (e1, Some (UnsupportedError
                             ''unsupported encryption function''))
                      else decode e1 rest)
         else decode e b)"

definition cfrgEnvelope :: "EncryptedKey \<Rightarrow> bytes \<Rightarrow> (EncryptedKey \<times> error option) outcome" where
  "cfrgEnvelope e b =
     (if Version e < 6 \<and>
         CipherFunc e \<noteq> CipherAES128 \<and> CipherFunc e \<noteq> CipherAES192 \<and>
         CipherFunc e \<noteq> CipherAES256
      then Returns (e, Some (StructuralError
             ''v3 PKESK mandates AES as cipher function for x25519 and x448''))
      else Returns (e\<lparr>Key := Some b\<rparr>, None))"

definition stripEnvelope ::
  "('r, 'pk, 'sk) Collaborators \<Rightarrow> EncryptedKey \<Rightarrow> ('pk, 'sk) PrivateKey \<Rightarrow> bytes \<Rightarrow>
     (EncryptedKey \<times> error option) outcome" where
  "stripEnvelope C e priv b =
     (case PubKeyAlgo priv of
        PubKeyAlgoRSA \<Rightarrow> classicalEnvelope C e b
      | PubKeyAlgoRSAEncryptOnly \<Rightarrow> classicalEnvelope C e b
      | PubKeyAlgoElGamal \<Rightarrow> classicalEnvelope C e b
      | PubKeyAlgoECDH \<Rightarrow> classicalEnvelope C e b
      | PubKeyAlgoX25519 \<Rightarrow> cfrgEnvelope e b
      | PubKeyAlgoX448 \<Rightarrow> cfrgEnvelope e b
      | _ \<Rightarrow> Returns (e\<lparr>Key := None\<rparr>, None))"

text \<open>
  \<open>Decrypt\<close> returns the error and has updated the packet \<open>e\<close>: the result is the
  packet after the call and the error (\<open>None\<close> for nil).
\<close>

definition Decrypt ::
  "('r, 'pk, 'sk) Collaborators \<Rightarrow> EncryptedKey \<Rightarrow> ('pk, 'sk) PrivateKey \<Rightarrow>
     (EncryptedKey \<times> error option) outcome" where
  "Decrypt C e priv =
     (if Version e < 6 \<and> KeyId e \<noteq> 0 \<and> KeyId e \<noteq> pubKeyId priv
      then Returns (e, Some (InvalidArgumentError
             ''cannot decrypt encrypted session key for key id ''))
      else if Version e = 6 \<and> KeyVersion e \<noteq> 0 \<and> KeyFingerprint e \<noteq> Fingerprint priv
      then Returns (e, Some (InvalidArgumentError
             ''cannot decrypt encrypted session key for key fingerprint ''))
      else if Algo e \<noteq> PubKeyAlgo priv
      then Returns (e, Some (InvalidArgumentError
             ''cannot decrypt encrypted session key of type ''))
      else if Dummy priv
      then Returns (e, Some (ErrDummyPrivateKey ''dummy key found''))
      else (case decryptPrimitive C e priv of
              Panics \<Rightarrow> Panics
            | Returns (Inl err) \<Rightarrow> Returns (e, Some err)
            | Returns (Inr b) \<Rightarrow> stripEnvelope C e priv b))"

section \<open>SerializeEncryptedKeyAEAD (encrypted\_key.go)\<close>

text \<open>
  The output \<open>w\<close> is an in-memory buffer: a write appends and cannot fail. Every
  serializer returns the buffer after the call and the error.
\<close>

text \<open>\<open>err.Error()\<close>, the message of an error (without the prefix of its type).\<close>

fun Error :: "error \<Rightarrow> string" where
  "Error (InvalidArgumentError m) = m"
| "Error (UnsupportedError m) = m"
| "Error (StructuralError m) = m"
| "Error (ErrDummyPrivateKey m) = m"
| "Error (PlainError m) = m"
| "Error ErrUnexpectedEOF = ''unexpected EOF''"
| "Error (ExternalError m) = m"

text \<open>\<open>binary.BigEndian.PutUint64\<close> and \<open>Uint64\<close> (on a slice of eight bytes).\<close>

definition PutUint64 :: "64 word \<Rightarrow> bytes" where
  "PutUint64 v = map (\<lambda>i. ucast (drop_bit (8 * i) v)) [7, 6, 5, 4, 3, 2, 1, 0 :: nat]"

definition Uint64 :: "bytes \<Rightarrow> 64 word" where
  "Uint64 b = foldl (\<lambda>acc x. push_bit 8 acc OR ucast x) 0 (take 8 b)"

text \<open>\<open>big.Int.BitLen\<close> and \<open>big.Int.Bytes\<close> (big-endian, no leading zero).\<close>

fun BitLen :: "nat \<Rightarrow> nat" where
  "BitLen n = (if n = 0 then 0 else Suc (BitLen (n div 2)))"

declare BitLen.simps [simp del]

fun BigBytes :: "nat \<Rightarrow> bytes" where
  "BigBytes n = (if n = 0 then [] else BigBytes (n div 256) @ [word_of_nat (n mod 256)])"

declare BigBytes.simps [simp del]

text \<open>
  Modelled from the spec: the constructors and the encoded length of a field; package
  \<open>internal/encoding\<close> is not among the source files. By section 6 an MPI carries the
  bit length of its value and \<open>ceil(bits/8)\<close> bytes, the first of them non-zero; an OID-length field and an octet array carry the bytes as they
  are. \<open>EncodedLength\<close> is a \<open>uint16\<close>.
\<close>

definition NewMPI :: "bytes \<Rightarrow> Field" where
  "NewMPI bs =
     (let bs1 = dropWhile (\<lambda>b. b = 0) bs
      in MPI bs1 (word_of_nat (BitLen (SetBytes bs1))))"

text \<open>Modelled from the spec: \<open>new(encoding.MPI).SetBig\<close>, the MPI of a \<open>big.Int\<close>.\<close>

definition SetBig :: "nat \<Rightarrow> Field" where
  "SetBig n = MPI (BigBytes n) (word_of_nat (BitLen n))"

text \<open>Modelled from the spec: \<open>encoding.NewOID\<close>, an OID-length field of the bytes.\<close>

definition NewOID :: "bytes \<Rightarrow> Field" where
  "NewOID bs = OID bs"

text \<open>Modelled from the spec: \<open>encoding.NewOctetArray\<close>, an octet array of the bytes.\<close>

definition NewOctetArray :: "bytes \<Rightarrow> Field" where
  "NewOctetArray bs = OctetArray bs"

text \<open>Modelled from the spec: \<open>EncodedLength\<close>, the number of encoded octets as a \<open>uint16\<close>.\<close>

definition EncodedLength :: "Field \<Rightarrow> 16 word" where
  "EncodedLength f = word_of_nat (length (EncodedBytes f))"

definition serializeEncryptedKeyRSA ::
  "('r, 'pk, 'sk) Collaborators \<Rightarrow> bytes \<Rightarrow> 'r \<Rightarrow> bytes \<Rightarrow> 'pk \<Rightarrow> bytes \<Rightarrow>
     bytes \<times> error option" where
  "serializeEncryptedKeyRSA C w rand header pub keyBlock =
     (case rsaEncrypt C rand pub keyBlock of
        Inl err \<Rightarrow>
          (w, Some (InvalidArgumentError (''RSA encryption failed: '' @ Error err)))
      | Inr cipherText \<Rightarrow>
          let cipherMPI = NewMPI cipherText;
              packetLen = int (length header) + uint (EncodedLength cipherMPI)
          in (w @ serializeHeader C packetLen @ header @ EncodedBytes cipherMPI, None))"

definition serializeEncryptedKeyElGamal ::
  "('r, 'pk, 'sk) Collaborators \<Rightarrow> bytes \<Rightarrow> 'r \<Rightarrow> bytes \<Rightarrow> 'pk \<Rightarrow> bytes \<Rightarrow>
     bytes \<times> error option" where
  "serializeEncryptedKeyElGamal C w rand header pub keyBlock =
     (case elgamalEncrypt C rand pub keyBlock of
        Inl err \<Rightarrow>
          (w, Some (InvalidArgumentError (''ElGamal encryption failed: '' @ Error err)))
      | Inr (c1, c2) \<Rightarrow>
          let packetLen = int (length header)
                + (2 + (int (BitLen c1) + 7) div 8)
                + (2 + (int (BitLen c2) + 7) div 8)
          in (w @ serializeHeader C packetLen @ header
                @ EncodedBytes (SetBig c1) @ EncodedBytes (SetBig c2), None))"

definition serializeEncryptedKeyECDH ::
  "('r, 'pk, 'sk) Collaborators \<Rightarrow> bytes \<Rightarrow> 'r \<Rightarrow> bytes \<Rightarrow> 'pk \<Rightarrow> bytes \<Rightarrow>
     Field option \<Rightarrow> bytes \<Rightarrow> (bytes \<times> error option) outcome" where
  "serializeEncryptedKeyECDH C w rand header pub keyBlock curveOid fingerprint =
     (case curveOid of
        None \<Rightarrow> Panics
      | Some oidField \<Rightarrow>
          (case ecdhEncrypt C rand pub keyBlock (EncodedBytes oidField) fingerprint of
             Inl err \<Rightarrow>
               Returns (w, Some (InvalidArgumentError
                 (''ECDH encryption failed: '' @ Error err)))
           | Inr (vsG, c) \<Rightarrow>
               let g = NewMPI vsG;
                   m = NewOID c;
                   packetLen = int (length header)
                     + (uint (EncodedLength g) + uint (EncodedLength m))
               in Returns (w @ serializeHeader C packetLen @ header
                             @ EncodedBytes g @ EncodedBytes m, None)))"

definition serializeEncryptedKeyX25519 ::
  "('r, 'pk, 'sk) Collaborators \<Rightarrow> bytes \<Rightarrow> 'r \<Rightarrow> bytes \<Rightarrow> 'pk \<Rightarrow> bytes \<Rightarrow>
     byte \<Rightarrow> int \<Rightarrow> bytes \<times> error option" where
  "serializeEncryptedKeyX25519 C w rand header pub keyBlock cipherFunc version =
     (case x25519Encrypt C rand pub keyBlock of
        Inl err \<Rightarrow>
          (w, Some (InvalidArgumentError (''X25519 encryption failed: '' @ Error err)))
      | Inr (ephemeralPublic, ciphertext) \<Rightarrow>
          let packetLen = int (length header)
                + x25519EncodedFieldsLength C ciphertext (version = 6)
          in (w @ serializeHeader C packetLen @ header
                @ x25519EncodeFields C ephemeralPublic ciphertext cipherFunc (version = 6),
              None))"

definition serializeEncryptedKeyX448 ::
  "('r, 'pk, 'sk) Collaborators \<Rightarrow> bytes \<Rightarrow> 'r \<Rightarrow> bytes \<Rightarrow> 'pk \<Rightarrow> bytes \<Rightarrow>
     byte \<Rightarrow> int \<Rightarrow> bytes \<times> error option" where
  "serializeEncryptedKeyX448 C w rand header pub keyBlock cipherFunc version =
     (case x448Encrypt C rand pub keyBlock of
        Inl err \<Rightarrow>
          (w, Some (InvalidArgumentError (''x448 encryption failed: '' @ Error err)))
      | Inr (ephemeralPublic, ciphertext) \<Rightarrow>
          let packetLen = int (length header)
                + x448EncodedFieldsLength C ciphertext (version = 6)
          in (w @ serializeHeader C packetLen @ header
                @ x448EncodeFields C ephemeralPublic ciphertext cipherFunc (version = 6),
              None))"

text \<open>
  \<open>serializeEncryptedKeyKyber\<close>. The error of \<open>SerializeForHash\<close> is dropped by the
  source; the hash is then taken over what was written, for which \<open>[]\<close> stands here. The
  packet length counts \<open>10\<close> for the header, whatever the length of \<open>header\<close>.
\<close>

definition serializeEncryptedKeyKyber ::
  "('r, 'pk, 'sk) Collaborators \<Rightarrow> bytes \<Rightarrow> 'r \<Rightarrow> bytes \<Rightarrow> 'pk \<Rightarrow> bytes \<Rightarrow>
     'pk PublicKey \<Rightarrow> bytes \<times> error option" where
  "serializeEncryptedKeyKyber C w rand header pub keyBlock publicKey =
     (let h = (case publicKeyHash C publicKey of Inl err \<Rightarrow> [] | Inr d \<Rightarrow> d)
      in case kyberEncrypt C rand pub keyBlock h of
           Inl err \<Rightarrow>
             (w, Some (InvalidArgumentError
               (''kyber_ecdh encryption failed: '' @ Error err)))
         | Inr (kE, ecE, c) \<Rightarrow>
             let k = NewOctetArray kE;
                 ec = NewOctetArray ecE;
                 m = NewOID c;
                 packetLen = 10
                   + (uint (EncodedLength ec) + uint (EncodedLength k)
                      + uint (EncodedLength m))
             in (w @ serializeHeader C packetLen @ header
                   @ EncodedBytes ec @ EncodedBytes k @ EncodedBytes m, None))"

text \<open>
  The header that \<open>SerializeEncryptedKeyAEAD\<close> assembles in \<open>buf [35]byte\<close> and
  passes on as \<open>buf[:lenHeaderWritten]\<close>. At version 6, \<open>copy\<close> into
  \<open>buf[2:len(pub.Fingerprint)+2]\<close> and the write of \<open>buf[lenHeaderWritten]\<close> panic when
  the fingerprint has more than 32 bytes. \<open>pub\<close> is not nil: the function has read
  \<open>pub.PubKeyAlgo\<close> before.
\<close>

definition pkeskHeader ::
  "('r, 'pk, 'sk) Collaborators \<Rightarrow> int \<Rightarrow> 'pk PublicKey \<Rightarrow> bytes outcome" where
  "pkeskHeader C version pub =
     (if version = 6
      then (if 32 < length (Fingerprint pub) then Panics
            else Returns ([word_of_int version, word_of_int (pubVersion pub)]
                   @ Fingerprint pub @ [byteOfAlgo C (PubKeyAlgo pub)]))
      else Returns ([word_of_int version] @ PutUint64 (pubKeyId pub)
             @ [byteOfAlgo C (PubKeyAlgo pub)]))"

text \<open>
  The key block. Only the RSA, ElGamal, ECDH, X25519 and X448 cases assign it; for every
  other algorithm it keeps its zero value nil.
\<close>

definition pkeskKeyBlock ::
  "('r, 'pk, 'sk) Collaborators \<Rightarrow> int \<Rightarrow> PublicKeyAlgorithm \<Rightarrow> CipherFunction \<Rightarrow>
     bytes \<Rightarrow> bytes outcome" where
  "pkeskKeyBlock C version algo cipherFunc key =
     (let classical =
            (let lenKeyBlock = length key + 2 + (if version < 6 then 1 else 0);
                 keyBlock = replicate lenKeyBlock (0 :: byte);
                 keyBlock1 = (if version < 6
                              then keyBlock[0 := byteOfCipher C cipherFunc] else keyBlock);
                 keyOffset = (if version < 6 then 1 else 0 :: nat)
             in case encodeChecksumKey (drop keyOffset keyBlock1) key of
                  Panics \<Rightarrow> Panics
                | Returns buffer \<Rightarrow> Returns (take keyOffset keyBlock1 @ buffer))
      in case algo of
           PubKeyAlgoRSA \<Rightarrow> classical
         | PubKeyAlgoRSAEncryptOnly \<Rightarrow> classical
         | PubKeyAlgoElGamal \<Rightarrow> classical
         | PubKeyAlgoECDH \<Rightarrow> classical
         | PubKeyAlgoX25519 \<Rightarrow> Returns key
         | PubKeyAlgoX448 \<Rightarrow> Returns key
         | _ \<Rightarrow> Returns [])"

definition SerializeEncryptedKeyAEAD ::
  "('r, 'pk, 'sk) Collaborators \<Rightarrow> bytes \<Rightarrow> 'pk PublicKey \<Rightarrow> CipherFunction \<Rightarrow> bool \<Rightarrow>
     bytes \<Rightarrow> 'r \<Rightarrow> (bytes \<times> error option) outcome" where
  "SerializeEncryptedKeyAEAD C w pub cipherFunc aeadSupported key rand =
     (let version = (if aeadSupported then 6 else 3 :: int)
      in if version = 6 \<and> PubKeyAlgo pub = PubKeyAlgoElGamal
         then Returns (w, Some (InvalidArgumentError ''ElGamal v6 PKESK are not allowed''))
         else if version = 3
                 \<and> (PubKeyAlgo pub = PubKeyAlgoX25519 \<or> PubKeyAlgo pub = PubKeyAlgoX448)
                 \<and> cipherFunc \<noteq> CipherAES128 \<and> cipherFunc \<noteq> CipherAES192
                 \<and> cipherFunc \<noteq> CipherAES256
         then Returns (w, Some (InvalidArgumentError
                ''v3 PKESK mandates AES for x25519 and x448''))
         else
           (case pkeskHeader C version pub of
              Panics \<Rightarrow> Panics
            | Returns header \<Rightarrow>
               (case pkeskKeyBlock C version (PubKeyAlgo pub) cipherFunc key of
                  Panics \<Rightarrow> Panics
                | Returns keyBlock \<Rightarrow>
                   (let material = PublicKeyMaterial pub;
                        kyber = Returns (serializeEncryptedKeyKyber C w rand header
                                           material keyBlock pub)
                    in case PubKeyAlgo pub of
                         PubKeyAlgoRSA \<Rightarrow>
                           Returns (serializeEncryptedKeyRSA C w rand header material keyBlock)
                       | PubKeyAlgoRSAEncryptOnly \<Rightarrow>
                           Returns (serializeEncryptedKeyRSA C w rand header material keyBlock)
                       | PubKeyAlgoElGamal \<Rightarrow>
                           Returns (serializeEncryptedKeyElGamal C w rand header material
                                      keyBlock)
                       | PubKeyAlgoECDH \<Rightarrow>
                           serializeEncryptedKeyECDH C w rand header material keyBlock
                             (oid pub) (Fingerprint pub)
                       | PubKeyAlgoX25519 \<Rightarrow>
                           Returns (serializeEncryptedKeyX25519 C w rand header material
                                      keyBlock (byteOfCipher C cipherFunc) version)
                       | PubKeyAlgoX448 \<Rightarrow>
                           Returns (serializeEncryptedKeyX448 C w rand header material
                                      keyBlock (byteOfCipher C cipherFunc) version)
                       | PubKeyAlgoKyber768X25519 \<Rightarrow> kyber
                       | PubKeyAlgoKyber1024X448 \<Rightarrow> kyber
                       | PubKeyAlgoKyber768P256 \<Rightarrow> kyber
                       | PubKeyAlgoKyber1024P384 \<Rightarrow> kyber
                       | PubKeyAlgoKyber768Brainpool256 \<Rightarrow> kyber
                       | PubKeyAlgoKyber1024Brainpool384 \<Rightarrow> kyber
                       | PubKeyAlgoDSA \<Rightarrow>
                           Returns (w, Some (InvalidArgumentError
                             ''cannot encrypt to public key of type ''))
                       | PubKeyAlgoRSASignOnly \<Rightarrow>
                           Returns (w, Some (InvalidArgumentError
                             ''cannot encrypt to public key of type ''))
                       | _ \<Rightarrow>
                           Returns (w, Some (UnsupportedError
                             ''encrypting a key to public key of type ''))))))"

section \<open>parse (encrypted\_key.go)\<close>

text \<open>
  Modelled from the spec: \<open>readFull\<close> and \<open>consumeAll\<close>, which are declared in package
  \<open>packet\<close> outside the source files. The reader \<open>r\<close> is the list of the octets of
  the packet body not yet read. Section 4.6 reads fixed numbers of octets, where a
  body that ends too early is an error, and as its step 4 it ``consumes the remaining
  packet bytes'': \<open>consumeAll\<close> reads the body to its end, discards what it reads and,
  on a body held in memory, returns no error.
\<close>

definition readFull :: "bytes \<Rightarrow> nat \<Rightarrow> error + bytes \<times> bytes" where
  "readFull r n =
     (if length r < n then Inl ErrUnexpectedEOF else Inr (take n r, drop n r))"

text \<open>Modelled from the spec: \<open>consumeAll\<close> (section 4.6, step 4), see above.\<close>

definition consumeAll :: "bytes \<Rightarrow> error option" where
  "consumeAll r = None"

text \<open>
  Modelled from the spec: \<open>ReadFrom\<close> of the three fields; package
  \<open>internal/encoding\<close> is not among the source files;
  the encodings are those of section 6 (see \<open>EncodedBytes\<close>).
\<close>

definition mpiReadFrom :: "bytes \<Rightarrow> error + Field \<times> bytes" where
  "mpiReadFrom r =
     (case readFull r 2 of
        Inl err \<Rightarrow> Inl err
      | Inr (buf, r1) \<Rightarrow>
          let bitLength = push_bit 8 (ucast (buf ! 0) :: 16 word) OR ucast (buf ! 1)
          in case readFull r1 ((unat bitLength + 7) div 8) of
               Inl err \<Rightarrow> Inl err
             | Inr (bs, r2) \<Rightarrow> Inr (MPI bs bitLength, r2))"

text \<open>Modelled from the spec: \<open>(*encoding.OID).ReadFrom\<close>, a one-octet length and that many bytes.\<close>

definition oidReadFrom :: "bytes \<Rightarrow> error + Field \<times> bytes" where
  "oidReadFrom r =
     (case readFull r 1 of
        Inl err \<Rightarrow> Inl err
      | Inr (buf, r1) \<Rightarrow>
          (case readFull r1 (unat (buf ! 0)) of
             Inl err \<Rightarrow> Inl err
           | Inr (bs, r2) \<Rightarrow> Inr (OID bs, r2)))"

text \<open>Modelled from the spec: \<open>(*encoding.OctetArray).ReadFrom\<close>, the fixed number of bytes.\<close>

definition octetArrayReadFrom :: "nat \<Rightarrow> bytes \<Rightarrow> error + Field \<times> bytes" where
  "octetArrayReadFrom n r =
     (case readFull r n of
        Inl err \<Rightarrow> Inl err
      | Inr (bs, r1) \<Rightarrow> Inr (OctetArray bs, r1))"

text \<open>
  \<open>parse\<close> fills the packet \<open>e\<close> from the body. On an error the caller drops the
  packet, so the result is the error or the packet that was read. The parts of \<open>parse\<close>
  are: the version-dependent key identification, the fields of the algorithm (with the
  cipher octet that the X25519 and X448 decoders hand back, zero otherwise), and the
  function itself.
\<close>

definition readKyberECDHKey ::
  "EncryptedKey \<Rightarrow> bytes \<Rightarrow> nat \<Rightarrow> nat \<Rightarrow> error + EncryptedKey \<times> bytes" where
  "readKyberECDHKey e r lenEcc lenKyber =
     (case octetArrayReadFrom lenEcc r of
        Inl err \<Rightarrow> Inl err
      | Inr (m1, r1) \<Rightarrow>
          (case octetArrayReadFrom lenKyber r1 of
             Inl err \<Rightarrow> Inl err
           | Inr (m2, r2) \<Rightarrow>
               (case oidReadFrom r2 of
                  Inl err \<Rightarrow> Inl err
                | Inr (m3, r3) \<Rightarrow>
                    Inr (e\<lparr>encryptedMPI1 := Some m1, encryptedMPI2 := Some m2,
                           encryptedMPI3 := Some m3\<rparr>, r3))))"

definition parseKeyIdentification ::
  "EncryptedKey \<Rightarrow> bytes \<Rightarrow> error + EncryptedKey \<times> bytes" where
  "parseKeyIdentification e r =
     (if Version e = 6
      then (case readFull r 1 of
              Inl err \<Rightarrow> Inl err
            | Inr (buf, r1) \<Rightarrow>
                let e1 = e\<lparr>KeyVersion := uint (buf ! 0)\<rparr>
                in if KeyVersion e1 \<noteq> 0 \<and> KeyVersion e1 \<noteq> 4 \<and> KeyVersion e1 \<noteq> 6
                   then Inl (UnsupportedError ''unknown public key version '')
                   else
                     (case readFull r1 (if KeyVersion e1 = 6 then 32
                                        else if KeyVersion e1 = 4 then 20 else 0) of
                        Inl err \<Rightarrow> Inl err
                      | Inr (fingerprint, r2) \<Rightarrow>
                          let e2 = e1\<lparr>KeyFingerprint := fingerprint\<rparr>
                          in Inr (if KeyVersion e2 = 6
                                  then e2\<lparr>KeyId := Uint64 (take 8 (KeyFingerprint e2))\<rparr>
                                  else if KeyVersion e2 = 4
                                  then e2\<lparr>KeyId :=
                                         Uint64 (take 8 (drop 12 (KeyFingerprint e2)))\<rparr>
                                  else e2, r2)))
      else (case readFull r 8 of
              Inl err \<Rightarrow> Inl err
            | Inr (buf, r1) \<Rightarrow> Inr (e\<lparr>KeyId := Uint64 buf\<rparr>, r1)))"

definition parseFields ::
  "('r, 'pk, 'sk) Collaborators \<Rightarrow> EncryptedKey \<Rightarrow> bytes \<Rightarrow>
     error + EncryptedKey \<times> byte \<times> bytes" where
  "parseFields C e r =
     (let kyber = (\<lambda>lenEcc lenKyber.
            case readKyberECDHKey e r lenEcc lenKyber of
              Inl err \<Rightarrow> Inl err
            | Inr (e1, r1) \<Rightarrow> Inr (e1, 0, r1));
          rsa = (case mpiReadFrom r of
                   Inl err \<Rightarrow> Inl err
                 | Inr (m1, r1) \<Rightarrow> Inr (e\<lparr>encryptedMPI1 := Some m1\<rparr>, 0, r1))
      in case Algo e of
           PubKeyAlgoRSA \<Rightarrow> rsa
         | PubKeyAlgoRSAEncryptOnly \<Rightarrow> rsa
         | PubKeyAlgoElGamal \<Rightarrow>
             (case mpiReadFrom r of
                Inl err \<Rightarrow> Inl err
              | Inr (m1, r1) \<Rightarrow>
                  (case mpiReadFrom r1 of
                     Inl err \<Rightarrow> Inl err
                   | Inr (m2, r2) \<Rightarrow>
                       Inr (e\<lparr>encryptedMPI1 := Some m1, encryptedMPI2 := Some m2\<rparr>, 0, r2)))
         | PubKeyAlgoECDH \<Rightarrow>
             (case mpiReadFrom r of
                Inl err \<Rightarrow> Inl err
              | Inr (m1, r1) \<Rightarrow>
                  (case oidReadFrom r1 of
                     Inl err \<Rightarrow> Inl err
                   | Inr (m2, r2) \<Rightarrow>
                       Inr (e\<lparr>encryptedMPI1 := Some m1, encryptedMPI2 := Some m2\<rparr>, 0, r2)))
         | PubKeyAlgoX25519 \<Rightarrow>
             (case x25519DecodeFields C r (Version e = 6) of
                Inl err \<Rightarrow> Inl err
              | Inr (ephemeral, session, cipherFunction, r1) \<Rightarrow>
                  Inr (e\<lparr>ephemeralPublicX25519 := Some ephemeral,
                         encryptedSession := session\<rparr>, cipherFunction, r1))
         | PubKeyAlgoX448 \<Rightarrow>
             (case x448DecodeFields C r (Version e = 6) of
                Inl err \<Rightarrow> Inl err
              | Inr (ephemeral, session, cipherFunction, r1) \<Rightarrow>
                  Inr (e\<lparr>ephemeralPublicX448 := Some ephemeral,
                         encryptedSession := session\<rparr>, cipherFunction, r1))
         | PubKeyAlgoKyber768X25519 \<Rightarrow> kyber 32 1088
         | PubKeyAlgoKyber1024X448 \<Rightarrow> kyber 56 1568
         | PubKeyAlgoKyber768P256 \<Rightarrow> kyber 65 1088
         | PubKeyAlgoKyber1024P384 \<Rightarrow> kyber 97 1568
         | PubKeyAlgoKyber768Brainpool256 \<Rightarrow> kyber 65 1088
         | PubKeyAlgoKyber1024Brainpool384 \<Rightarrow> kyber 97 1568
         | _ \<Rightarrow> Inr (e, 0, r))"

definition parse ::
  "('r, 'pk, 'sk) Collaborators \<Rightarrow> EncryptedKey \<Rightarrow> bytes \<Rightarrow> error + EncryptedKey" where
  "parse C e r =
     (case readFull r 1 of
        Inl err \<Rightarrow> Inl err
      | Inr (buf, r1) \<Rightarrow>
          let e1 = e\<lparr>Version := uint (buf ! 0)\<rparr>
          in if Version e1 \<noteq> 3 \<and> Version e1 \<noteq> 6
             then Inl (UnsupportedError ''unknown EncryptedKey version '')
             else
               (case parseKeyIdentification e1 r1 of
                  Inl err \<Rightarrow> Inl err
                | Inr (e2, r2) \<Rightarrow>
                    (case readFull r2 1 of
                       Inl err \<Rightarrow> Inl err
                     | Inr (buf1, r3) \<Rightarrow>
                         (case parseFields C (e2\<lparr>Algo := algoOfByte C (buf1 ! 0)\<rparr>) r3 of
                            Inl err \<Rightarrow> Inl err
                          | Inr (e3, cipherFunction, r4) \<Rightarrow>
                              let e4 = (if Version e3 < 6 \<and>
                                           (Algo e3 = PubKeyAlgoX25519 \<or>
                                            Algo e3 = PubKeyAlgoX448)
                                        then e3\<lparr>CipherFunc := cipherOfByte C cipherFunction\<rparr>
                                        else e3)
                              in (case consumeAll r4 of
                                    Some err \<Rightarrow> Inl err
                                  | None \<Rightarrow> Inr e4)))))"


section \<open>An instance of the collaborators\<close>

text \<open>
  For evaluating the model on concrete inputs: a table of algorithm and cipher octets
  (the registry values of RSA, ElGamal, ECDH, X25519, X448 and the AES ciphers, and one
  octet chosen for Kyber768+X25519), a packet header that is a tag octet followed by the
  length in two octets, primitives whose decryption returns what was encrypted, and the envelope of X25519 and X448 as a one-octet length followed by the
  cipher octet (before version 6) and the ciphertext. The key material and the random
  source are of type \<open>unit\<close>.
\<close>

definition testAlgoOfByte :: "byte \<Rightarrow> PublicKeyAlgorithm" where
  "testAlgoOfByte b =
     (if b = 1 then PubKeyAlgoRSA
      else if b = 16 then PubKeyAlgoElGamal
      else if b = 18 then PubKeyAlgoECDH
      else if b = 25 then PubKeyAlgoX25519
      else if b = 26 then PubKeyAlgoX448
      else if b = 29 then PubKeyAlgoKyber768X25519
      else PubKeyAlgoOther b)"

definition testByteOfAlgo :: "PublicKeyAlgorithm \<Rightarrow> byte" where
  "testByteOfAlgo a =
     (case a of
        PubKeyAlgoRSA \<Rightarrow> 1
      | PubKeyAlgoElGamal \<Rightarrow> 16
      | PubKeyAlgoECDH \<Rightarrow> 18
      | PubKeyAlgoX25519 \<Rightarrow> 25
      | PubKeyAlgoX448 \<Rightarrow> 26
      | PubKeyAlgoKyber768X25519 \<Rightarrow> 29
      | PubKeyAlgoOther b \<Rightarrow> b
      | _ \<Rightarrow> 0)"

definition testCipherOfByte :: "byte \<Rightarrow> CipherFunction" where
  "testCipherOfByte b =
     (if b = 7 then CipherAES128
      else if b = 8 then CipherAES192
      else if b = 9 then CipherAES256
      else CipherOther b)"

definition testByteOfCipher :: "CipherFunction \<Rightarrow> byte" where
  "testByteOfCipher c =
     (case c of
        CipherAES128 \<Rightarrow> 7
      | CipherAES192 \<Rightarrow> 8
      | CipherAES256 \<Rightarrow> 9
      | CipherOther b \<Rightarrow> b)"

definition testIsSupported :: "CipherFunction \<Rightarrow> bool" where
  "testIsSupported c = (case c of CipherOther b \<Rightarrow> False | _ \<Rightarrow> True)"

definition testEncodeFields :: "bytes \<Rightarrow> bytes \<Rightarrow> byte \<Rightarrow> bool \<Rightarrow> bytes" where
  "testEncodeFields ephemeral ciphertext cipherFunc v6 =
     ephemeral
       @ [word_of_nat (length ciphertext + (if v6 then 0 else 1))]
       @ (if v6 then [] else [cipherFunc])
       @ ciphertext"

definition testEncodedFieldsLength :: "nat \<Rightarrow> bytes \<Rightarrow> bool \<Rightarrow> int" where
  "testEncodedFieldsLength keySize ciphertext v6 =
     int keySize + 1 + int (length ciphertext) + (if v6 then 0 else 1)"

definition testDecodeFields ::
  "nat \<Rightarrow> bytes \<Rightarrow> bool \<Rightarrow> error + bytes \<times> bytes \<times> byte \<times> bytes" where
  "testDecodeFields keySize r v6 =
     (case readFull r keySize of
        Inl err \<Rightarrow> Inl err
      | Inr (ephemeral, r1) \<Rightarrow>
          (case readFull r1 1 of
             Inl err \<Rightarrow> Inl err
           | Inr (buf, r2) \<Rightarrow>
               if v6
               then (case readFull r2 (unat (buf ! 0)) of
                       Inl err \<Rightarrow> Inl err
                     | Inr (session, r3) \<Rightarrow> Inr (ephemeral, session, 0, r3))
               else (case readFull r2 1 of
                       Inl err \<Rightarrow> Inl err
                     | Inr (cf, r3) \<Rightarrow>
                         (case readFull r3 (unat (buf ! 0 - 1)) of
                            Inl err \<Rightarrow> Inl err
                          | Inr (session, r4) \<Rightarrow> Inr (ephemeral, session, cf ! 0, r4)))))"

definition testCollaborators :: "(unit, unit, unit) Collaborators" where
  "testCollaborators =
     \<lparr> algoOfByte = testAlgoOfByte,
       byteOfAlgo = testByteOfAlgo,
       cipherOfByte = testCipherOfByte,
       byteOfCipher = testByteOfCipher,
       IsSupported = testIsSupported,
       serializeHeader = (\<lambda>n. [193, word_of_int (n div 256), word_of_int n]),
       rsaEncrypt = (\<lambda>rand pub m. Inr m),
       rsaDecrypt = (\<lambda>priv c. Inr c),
       elgamalEncrypt = (\<lambda>rand pub m. Inr (SetBytes m, 1)),
       elgamalDecrypt = (\<lambda>priv c1 c2. Inr (BigBytes c1)),
       ecdhEncrypt = (\<lambda>rand pub m curveOid fingerprint. Inr ([4], m)),
       ecdhDecrypt = (\<lambda>priv vsG m curveOid fingerprint. Inr m),
       x25519Encrypt = (\<lambda>rand pub m. Inr (replicate 32 1, m)),
       x25519Decrypt = (\<lambda>priv ephemeral c. Inr c),
       x448Encrypt = (\<lambda>rand pub m. Inr (replicate 56 1, m)),
       x448Decrypt = (\<lambda>priv ephemeral c. Inr c),
       kyberEncrypt = (\<lambda>rand pub m h. Inr (replicate 1088 2, replicate 32 1, m)),
       kyberDecrypt = (\<lambda>priv kE ecE m h. Inr m),
       publicKeyHash = (\<lambda>pub. Inr []),
       x25519EncodeFields = testEncodeFields,
       x25519EncodedFieldsLength = testEncodedFieldsLength 32,
       x25519DecodeFields = testDecodeFields 32,
       x448EncodeFields = testEncodeFields,
       x448EncodedFieldsLength = testEncodedFieldsLength 56,
       x448DecodeFields = testDecodeFields 56 \<rparr>"

text \<open>A zero-valued packet, a public key and a private key to evaluate on.\<close>

definition emptyEncryptedKey :: EncryptedKey where
  "emptyEncryptedKey =
     \<lparr> Version = 0, KeyId = 0, KeyVersion = 0, KeyFingerprint = [],
       Algo = PubKeyAlgoOther 0, CipherFunc = CipherOther 0, Key = None,
       encryptedMPI1 = None, encryptedMPI2 = None, encryptedMPI3 = None,
       ephemeralPublicX25519 = None, ephemeralPublicX448 = None,
       encryptedSession = [] \<rparr>"

definition testPublicKey :: "PublicKeyAlgorithm \<Rightarrow> int \<Rightarrow> bytes \<Rightarrow> unit PublicKey" where
  "testPublicKey algo version fingerprint =
     \<lparr> pubVersion = version, pubKeyId = 5, Fingerprint = fingerprint,
       PubKeyAlgo = algo, oid = Some (OID [43]), PublicKeyMaterial = () \<rparr>"

definition testPrivateKey ::
  "PublicKeyAlgorithm \<Rightarrow> int \<Rightarrow> bytes \<Rightarrow> bool \<Rightarrow> (unit, unit) PrivateKey" where
  "testPrivateKey algo version fingerprint dummy =
     \<lparr> pubVersion = version, pubKeyId = 5, Fingerprint = fingerprint,
       PubKeyAlgo = algo, oid = Some (OID [43]), PublicKeyMaterial = (),
       PrivateKeyMaterial = (), Dummy = dummy \<rparr>"

section \<open>generateRSAKeyWithPrimes (key generation)\<close>

text \<open>
  \<open>big.Int\<close> values are integers; Go's \<open>int\<close> (\<open>nprimes\<close>, \<open>bits\<close>, \<open>todo\<close>) is an
  integer too: the sums formed here stay far below \<open>2^63\<close> for every \<open>bits\<close> whose
  primes fit in memory. \<open>bigBitLen\<close> is \<open>big.Int.BitLen\<close>, the bit length of the absolute
  value.
\<close>

definition bigBitLen :: "int \<Rightarrow> int" where
  "bigBitLen x = int (BitLen (nat \<bar>x\<bar>))"

text \<open>
  \<open>big.Int.ModInverse(g, n)\<close> of \<open>math/big\<close>: nil when \<open>g\<close> and \<open>n\<close> are not
  relatively prime; otherwise the \<open>x\<close> of \<open>g * x + |n| * y = 1\<close>, brought into the range
  from \<open>0\<close> below \<open>|n|\<close>. A negative \<open>g\<close> is first reduced modulo \<open>|n|\<close>.
\<close>

definition ModInverse :: "int \<Rightarrow> int \<Rightarrow> int option" where
  "ModInverse g n =
     (let n1 = \<bar>n\<bar>;
          g1 = (if g < 0 then g mod n1 else g)
      in if gcd g1 n1 \<noteq> 1 then None
         else Some (fst (bezw (nat g1) (nat n1)) mod n1))"

text \<open>
  \<open>rsa.PrivateKey\<close>, with the fields the function sets. \<open>Precompute\<close> fills the CRT
  values of the key from these fields and changes none of them; it is left out.
\<close>

record RSAPrivateKey =
  N :: int
  E :: int
  D :: int
  Primes :: "int list"

text \<open>
  The inner loop \<open>for i := 0; i < nprimes; i++\<close>, by the number \<open>nprimes - i\<close> of
  primes still to come. \<open>Prime\<close> is \<open>rand.Prime\<close> on the random source \<open>random\<close>, which
  it advances; \<open>todo / (nprimes - i)\<close> is Go's truncating division. A prime is taken
  from the head of \<open>prepopulatedPrimes\<close> as long as there is one. The result is the slice
  \<open>primes\<close>, the random source and what is left of \<open>prepopulatedPrimes\<close>.
\<close>

fun drawPrimes ::
  "('g \<Rightarrow> int \<Rightarrow> error + int \<times> 'g) \<Rightarrow> nat \<Rightarrow> int \<Rightarrow> 'g \<Rightarrow> int list \<Rightarrow> int list \<Rightarrow>
     error + int list \<times> 'g \<times> int list" where
  "drawPrimes Prime 0 todo random prepopulatedPrimes primes =
     Inr (primes, random, prepopulatedPrimes)"
| "drawPrimes Prime (Suc k) todo random [] primes =
     (case Prime random (todo sdiv int (Suc k)) of
        Inl err \<Rightarrow> Inl err
      | Inr (p, random1) \<Rightarrow>
          drawPrimes Prime k (todo - bigBitLen p) random1 [] (primes @ [p]))"
| "drawPrimes Prime (Suc k) todo random (p # rest) primes =
     drawPrimes Prime k (todo - bigBitLen p) random rest (primes @ [p])"

text \<open>The bit budget \<open>todo\<close> at the start of an iteration of \<open>NextSetOfPrimes\<close>.\<close>

definition initialTodo :: "int \<Rightarrow> int \<Rightarrow> int" where
  "initialTodo nprimes bits = bits + (if 7 \<le> nprimes then (nprimes - 2) div 5 else 0)"

text \<open>
  The loop \<open>NextSetOfPrimes\<close>. It has no bound in the source, so the model counts
  iterations: \<open>None\<close> is the loop still running after \<open>fuel\<close> iterations. Each
  \<open>continue\<close> starts the next iteration with the random source and the prepopulated
  primes as the last one left them.
\<close>

fun nextSetOfPrimes ::
  "nat \<Rightarrow> ('g \<Rightarrow> int \<Rightarrow> error + int \<times> 'g) \<Rightarrow> 'g \<Rightarrow> int \<Rightarrow> int \<Rightarrow> int list \<Rightarrow>
     (error + RSAPrivateKey) option" where
  "nextSetOfPrimes 0 Prime random nprimes bits prepopulatedPrimes = None"
| "nextSetOfPrimes (Suc fuel) Prime random nprimes bits prepopulatedPrimes =
     (case drawPrimes Prime (nat nprimes) (initialTodo nprimes bits) random
             prepopulatedPrimes [] of
        Inl err \<Rightarrow> Some (Inl err)
      | Inr (primes, random1, prepopulatedPrimes1) \<Rightarrow>
          if \<not> distinct primes
          then nextSetOfPrimes fuel Prime random1 nprimes bits prepopulatedPrimes1
          else
            let n = prod_list primes;
                totient = prod_list (map (\<lambda>prime. prime - 1) primes)
            in if bigBitLen n \<noteq> bits
               then nextSetOfPrimes fuel Prime random1 nprimes bits prepopulatedPrimes1
               else (case ModInverse 65537 totient of
                       None \<Rightarrow>
                         nextSetOfPrimes fuel Prime random1 nprimes bits prepopulatedPrimes1
                     | Some d \<Rightarrow>
                         Some (Inr \<lparr> N = n, E = 65537, D = d, Primes = primes \<rparr>)))"

definition generateRSAKeyWithPrimes ::
  "nat \<Rightarrow> ('g \<Rightarrow> int \<Rightarrow> error + int \<times> 'g) \<Rightarrow> 'g \<Rightarrow> int \<Rightarrow> int \<Rightarrow> int list \<Rightarrow>
     (error + RSAPrivateKey) option" where
  "generateRSAKeyWithPrimes fuel Prime random nprimes bits prepopulatedPrimes =
     (if nprimes < 2
      then Some (Inl (PlainError ''generateRSAKeyWithPrimes: nprimes must be >= 2''))
      else if bits < 1024
      then Some (Inl (PlainError ''generateRSAKeyWithPrimes: bits must be >= 1024''))
      else nextSetOfPrimes fuel Prime random nprimes bits prepopulatedPrimes)"

text \<open>
  A prime number, for the statement about the factors of \<open>N\<close>; \<open>noDivisorUpTo\<close> is the
  check by trial division that evaluates it.
\<close>

definition isPrime :: "int \<Rightarrow> bool" where
  "isPrime p = (1 < p \<and> (\<forall>d. 0 < d \<and> d dvd p \<longrightarrow> d = 1 \<or> d = p))"

definition noDivisorUpTo :: "int \<Rightarrow> int \<Rightarrow> bool" where
  "noDivisorUpTo k p = (\<forall>d \<in> {2..k}. \<not> d dvd p)"

text \<open>
  The contract of \<open>rand.Prime(random, bits)\<close> that the claim about the key relies on: a
  number it returns is prime and has exactly \<open>bits\<close> bits.
\<close>

definition primeSource :: "('g \<Rightarrow> int \<Rightarrow> error + int \<times> 'g) \<Rightarrow> bool" where
  "primeSource Prime =
     (\<forall>random bits p random1.
        Prime random bits = Inr (p, random1) \<longrightarrow> isPrime p \<and> bigBitLen p = bits)"

text \<open>
  What the claim about \<open>generateRSAKeyWithPrimes\<close> says of a key returned within \<open>fuel\<close>
  iterations, for the prepopulated primes the first of them starts with. The iteration
  that returns is the one after \<open>k\<close> others, each of which took \<open>nprimes\<close> prepopulated
  primes as long as there were any; it takes its first \<open>m\<close> primes from those left and
  draws the others.
\<close>

definition keyOk :: "nat \<Rightarrow> int \<Rightarrow> int \<Rightarrow> int list \<Rightarrow> RSAPrivateKey \<Rightarrow> bool" where
  "keyOk fuel nprimes bits prepop key =
     (length (Primes key) = nat nprimes \<and> distinct (Primes key) \<and>
      (\<forall>p \<in> set (Primes key). isPrime p) \<and>
      N key = prod_list (Primes key) \<and> bigBitLen (N key) = bits \<and> E key = 65537 \<and>
      (D key * E key) mod prod_list (map (\<lambda>p. p - 1) (Primes key)) =
        1 mod prod_list (map (\<lambda>p. p - 1) (Primes key)) \<and>
      (\<exists>k < fuel. \<exists>m.
         m = min (nat nprimes) (length prepop - k * nat nprimes) \<and>
         take m (Primes key) = take m (drop (k * nat nprimes) prepop) \<and>
         (\<forall>i < nat nprimes. m \<le> i \<longrightarrow>
            bigBitLen (Primes key ! i) =
              (initialTodo nprimes bits - sum_list (map bigBitLen (take i (Primes key))))
                sdiv (nprimes - int i))))"

text \<open>
  An input to evaluate on: 63 prepopulated primes, twelve of 17 bits and 51 of 16 bits,
  1020 bits in all, for a key of 64 primes and 1024 bits. The budget of an iteration is
  \<open>1024 + 62 / 5 = 1036\<close>, so the last prime is drawn with \<open>(1036 - 1020) / 1 = 16\<close>
  bits. \<open>testPrime\<close> is a prime source that has the prime 64951 for a request of 16 bits
  and fails on any other; its state counts the primes drawn. \<open>noPrime\<close> is a prime source
  that yields nothing.
\<close>

definition testPrimes :: "int list" where
  "testPrimes =
     [65539, 65543, 65551, 65557, 65563, 65579, 65581, 65587, 65599, 65609, 65617, 65629,
      65521, 65519, 65497, 65479, 65449, 65447, 65437, 65423, 65419, 65413, 65407, 65393,
      65381, 65371, 65357, 65353, 65327, 65323, 65309, 65293, 65287, 65269, 65267, 65257,
      65239, 65213, 65203, 65183, 65179, 65173, 65171, 65167, 65147, 65141, 65129, 65123,
      65119, 65111, 65101, 65099, 65089, 65071, 65063, 65053, 65033, 65029, 65027, 65011,
      65003, 64997, 64969]"

definition testPrime :: "nat \<Rightarrow> int \<Rightarrow> error + int \<times> nat" where
  "testPrime random bits =
     (if bits = 16 then Inr (64951, Suc random)
      else Inl (ExternalError ''no prime of this size''))"

definition noPrime :: "unit \<Rightarrow> int \<Rightarrow> error + int \<times> unit" where
  "noPrime random bits = Inl (ExternalError ''no random source'')"

section \<open>Key generation: newSigner and newDecrypter\<close>

text \<open>
  \<open>packet.Config\<close>, as the values its accessors return (\<open>config.Hash()\<close>,
  \<open>config.PublicKeyAlgorithm()\<close>, and so on) and its fields \<open>RSAPrimes\<close> and \<open>V5Keys\<close>.
  The config is not nil here: the functions below read \<open>config.V5Keys\<close> directly, and a
  nil config selects none of the algorithms the claims are about. \<open>AEAD\<close> is
  \<open>config.AEAD()\<close>, which may be nil.
\<close>

datatype HashFunction = SHA256 | SHA384 | SHA512 | SHA3_256 | SHA3_512 | HashOther nat

datatype CompressionAlgo = CompressionNone | CompressionOther byte

datatype AEADMode = AEADModeEAX | AEADModeOther byte

record AEADConfig =
  DefaultMode :: AEADMode

record 'g Config =
  PublicKeyAlgorithm :: PublicKeyAlgorithm
  RSAModulusBits :: int
  RSAPrimes :: "int list"
  Random :: 'g
  CurveName :: string
  V5Keys :: bool
  SphincsPlusParam :: byte
  Hash :: HashFunction
  Cipher :: CipherFunction
  Compression :: CompressionAlgo
  AEAD :: "AEADConfig option"

text \<open>
  The generators, curve lookups and parameter tables of the other packages (\<open>rsa\<close>,
  \<open>eddsa\<close>, \<open>ecdsa\<close>, \<open>ecdh\<close>, \<open>ecc\<close>, \<open>dilithium_ecdsa\<close>, \<open>dilithium_eddsa\<close>,
  \<open>sphincs_plus\<close>, \<open>kyber_ecdh\<close>, \<open>packet\<close>), as parameters: \<open>'c\<close> is a curve, \<open>'q\<close>
  a parameter set, \<open>'k\<close> a generated key. A lookup by name gives \<open>None\<close> for nil;
  \<open>algoByte\<close> is \<open>uint8(algo)\<close>; \<open>randPrime\<close> is \<open>rand.Prime\<close>.
\<close>

record ('g, 'c, 'q, 'k) KeyGenerators =
  randPrime :: "'g \<Rightarrow> int \<Rightarrow> error + int \<times> 'g"
  rsaGenerateKey :: "'g \<Rightarrow> int \<Rightarrow> error + RSAPrivateKey"
  FindEdDSAByGenName :: "string \<Rightarrow> 'c option"
  FindECDSAByGenName :: "string \<Rightarrow> 'c option"
  FindECDHByGenName :: "string \<Rightarrow> 'c option"
  eddsaGenerateKey :: "'g \<Rightarrow> 'c \<Rightarrow> error + 'k"
  ecdsaGenerateKey :: "'g \<Rightarrow> 'c \<Rightarrow> error + 'k"
  ecdhGenerateKey :: "'g \<Rightarrow> 'c \<Rightarrow> HashFunction \<times> CipherFunction \<Rightarrow> error + 'k"
  GetECDSACurveFromAlgID :: "PublicKeyAlgorithm \<Rightarrow> error + 'c"
  GetEdDSACurveFromAlgID :: "PublicKeyAlgorithm \<Rightarrow> error + 'c"
  GetECDHCurveFromAlgID :: "PublicKeyAlgorithm \<Rightarrow> error + 'c"
  GetDilithiumFromAlgID :: "PublicKeyAlgorithm \<Rightarrow> error + 'q"
  GetKyberFromAlgID :: "PublicKeyAlgorithm \<Rightarrow> error + 'q"
  GetSphincsPlusModeFromAlgID :: "PublicKeyAlgorithm \<Rightarrow> error + 'q"
  GetMatchingKyberKem :: "PublicKeyAlgorithm \<Rightarrow> error + PublicKeyAlgorithm"
  dilithiumEcdsaGenerateKey :: "'g \<Rightarrow> byte \<Rightarrow> 'c \<Rightarrow> 'q \<Rightarrow> error + 'k"
  dilithiumEddsaGenerateKey :: "'g \<Rightarrow> byte \<Rightarrow> 'c \<Rightarrow> 'q \<Rightarrow> error + 'k"
  sphincsPlusGenerateKey :: "'g \<Rightarrow> 'q \<Rightarrow> byte \<Rightarrow> error + 'k"
  kyberEcdhGenerateKey :: "'g \<Rightarrow> byte \<Rightarrow> 'c \<Rightarrow> 'q \<Rightarrow> error + 'k"
  algoByte :: "PublicKeyAlgorithm \<Rightarrow> byte"

text \<open>The \<open>interface{}\<close> that is returned: an RSA key or a key of another package.\<close>

datatype 'k GeneratedKey = RSAKey RSAPrivateKey | OtherKey 'k

text \<open>The case labels of the Dilithium and SPHINCS+ cases.\<close>

definition dilithiumEcdsaAlgorithms :: "PublicKeyAlgorithm set" where
  "dilithiumEcdsaAlgorithms =
     {PubKeyAlgoDilithium3p256, PubKeyAlgoDilithium5p384,
      PubKeyAlgoDilithium3Brainpool256, PubKeyAlgoDilithium5Brainpool384}"

definition dilithiumEddsaAlgorithms :: "PublicKeyAlgorithm set" where
  "dilithiumEddsaAlgorithms = {PubKeyAlgoDilithium3Ed25519, PubKeyAlgoDilithium5Ed448}"

definition sphincsPlusAlgorithms :: "PublicKeyAlgorithm set" where
  "sphincsPlusAlgorithms = {PubKeyAlgoSphincsPlusSha2, PubKeyAlgoSphincsPlusShake}"

text \<open>
  The RSA case, which \<open>newSigner\<close> and \<open>newDecrypter\<close> share word for word. With two or
  more prepared primes it consumes the first two of \<open>config.RSAPrimes\<close>. The result of
  each function is the config after the call and the key or the error; \<open>None\<close> is the
  prime search of \<open>generateRSAKeyWithPrimes\<close> still running after \<open>fuel\<close> iterations.
\<close>

definition newRSAKey ::
  "nat \<Rightarrow> ('g, 'c, 'q, 'k) KeyGenerators \<Rightarrow> 'g Config \<Rightarrow>
     ('g Config \<times> (error + 'k GeneratedKey)) option" where
  "newRSAKey fuel G config =
     (let bits = RSAModulusBits config
      in if bits < 1024
         then Some (config, Inl (InvalidArgumentError ''bits must be >= 1024''))
         else if 2 \<le> length (RSAPrimes config)
         then (let primes = take 2 (RSAPrimes config);
                   config1 = config\<lparr>RSAPrimes := drop 2 (RSAPrimes config)\<rparr>
               in case generateRSAKeyWithPrimes fuel (randPrime G) (Random config1) 2 bits
                         primes of
                    None \<Rightarrow> None
                  | Some res \<Rightarrow> Some (config1, map_sum id RSAKey res))
         else Some (config, map_sum id RSAKey (rsaGenerateKey G (Random config) bits)))"

definition newSigner ::
  "nat \<Rightarrow> ('g, 'c, 'q, 'k) KeyGenerators \<Rightarrow> 'g Config \<Rightarrow>
     ('g Config \<times> (error + 'k GeneratedKey)) option" where
  "newSigner fuel G config =
     (let algo = PublicKeyAlgorithm config;
          dilithiumEcdsa =
            (if \<not> V5Keys config
             then Inl (PlainError ''openpgp: cannot create a non-v5 dilithium_ecdsa key'')
             else case GetECDSACurveFromAlgID G algo of
                    Inl err \<Rightarrow> Inl err
                  | Inr c \<Rightarrow>
                      (case GetDilithiumFromAlgID G algo of
                         Inl err \<Rightarrow> Inl err
                       | Inr d \<Rightarrow>
                           map_sum id OtherKey
                             (dilithiumEcdsaGenerateKey G (Random config) (algoByte G algo) c d)));
          dilithiumEddsa =
            (if \<not> V5Keys config
             then Inl (PlainError ''openpgp: cannot create a non-v5 dilithium_eddsa key'')
             else case GetEdDSACurveFromAlgID G algo of
                    Inl err \<Rightarrow> Inl err
                  | Inr c \<Rightarrow>
                      (case GetDilithiumFromAlgID G algo of
                         Inl err \<Rightarrow> Inl err
                       | Inr d \<Rightarrow>
                           map_sum id OtherKey
                             (dilithiumEddsaGenerateKey G (Random config) (algoByte G algo) c d)));
          sphincsPlus =
            (if \<not> V5Keys config
             then Inl (PlainError ''openpgp: cannot create a non-v5 sphincs+ key'')
             else case GetSphincsPlusModeFromAlgID G algo of
                    Inl err \<Rightarrow> Inl err
                  | Inr mode \<Rightarrow>
                      map_sum id OtherKey
                        (sphincsPlusGenerateKey G (Random config) mode (SphincsPlusParam config)))
      in case algo of
           PubKeyAlgoRSA \<Rightarrow> newRSAKey fuel G config
         | PubKeyAlgoEdDSA \<Rightarrow>
             (case FindEdDSAByGenName G (CurveName config) of
                None \<Rightarrow> Some (config, Inl (InvalidArgumentError ''unsupported curve''))
              | Some curve \<Rightarrow>
                  Some (config, map_sum id OtherKey (eddsaGenerateKey G (Random config) curve)))
         | PubKeyAlgoECDSA \<Rightarrow>
             (case FindECDSAByGenName G (CurveName config) of
                None \<Rightarrow> Some (config, Inl (InvalidArgumentError ''unsupported curve''))
              | Some curve \<Rightarrow>
                  Some (config, map_sum id OtherKey (ecdsaGenerateKey G (Random config) curve)))
         | PubKeyAlgoDilithium3p256 \<Rightarrow> Some (config, dilithiumEcdsa)
         | PubKeyAlgoDilithium5p384 \<Rightarrow> Some (config, dilithiumEcdsa)
         | PubKeyAlgoDilithium3Brainpool256 \<Rightarrow> Some (config, dilithiumEcdsa)
         | PubKeyAlgoDilithium5Brainpool384 \<Rightarrow> Some (config, dilithiumEcdsa)
         | PubKeyAlgoDilithium3Ed25519 \<Rightarrow> Some (config, dilithiumEddsa)
         | PubKeyAlgoDilithium5Ed448 \<Rightarrow> Some (config, dilithiumEddsa)
         | PubKeyAlgoSphincsPlusSha2 \<Rightarrow> Some (config, sphincsPlus)
         | PubKeyAlgoSphincsPlusShake \<Rightarrow> Some (config, sphincsPlus)
         | _ \<Rightarrow> Some (config, Inl (InvalidArgumentError ''unsupported public key algorithm'')))"

text \<open>
  \<open>newDecrypter\<close>. The cases of EdDSA and ECDSA fall through to ECDH. The cases of
  Dilithium and SPHINCS+ replace \<open>pubKeyAlgo\<close> by the matching Kyber algorithm, or return
  the error of that lookup, and fall through to the Kyber case.
\<close>

definition newKyberKey ::
  "('g, 'c, 'q, 'k) KeyGenerators \<Rightarrow> 'g Config \<Rightarrow> PublicKeyAlgorithm \<Rightarrow>
     error + 'k GeneratedKey" where
  "newKyberKey G config pubKeyAlgo =
     (if \<not> V5Keys config
      then Inl (PlainError ''openpgp: cannot create a non-v5 kyber_ecdh key'')
      else case GetECDHCurveFromAlgID G pubKeyAlgo of
             Inl err \<Rightarrow> Inl err
           | Inr c \<Rightarrow>
               (case GetKyberFromAlgID G pubKeyAlgo of
                  Inl err \<Rightarrow> Inl err
                | Inr k \<Rightarrow>
                    map_sum id OtherKey
                      (kyberEcdhGenerateKey G (Random config) (algoByte G pubKeyAlgo) c k)))"

definition newDecrypter ::
  "nat \<Rightarrow> ('g, 'c, 'q, 'k) KeyGenerators \<Rightarrow> 'g Config \<Rightarrow>
     ('g Config \<times> (error + 'k GeneratedKey)) option" where
  "newDecrypter fuel G config =
     (let pubKeyAlgo = PublicKeyAlgorithm config;
          ecdhKey =
            (case FindECDHByGenName G (CurveName config) of
               None \<Rightarrow> Inl (InvalidArgumentError ''unsupported curve'')
             | Some curve \<Rightarrow>
                 map_sum id OtherKey
                   (ecdhGenerateKey G (Random config) curve (SHA512, CipherAES256)));
          matching =
            (case GetMatchingKyberKem G (PublicKeyAlgorithm config) of
               Inl err \<Rightarrow> Inl err
             | Inr pubKeyAlgo1 \<Rightarrow> newKyberKey G config pubKeyAlgo1);
          kyber = newKyberKey G config pubKeyAlgo
      in case pubKeyAlgo of
           PubKeyAlgoRSA \<Rightarrow> newRSAKey fuel G config
         | PubKeyAlgoEdDSA \<Rightarrow> Some (config, ecdhKey)
         | PubKeyAlgoECDSA \<Rightarrow> Some (config, ecdhKey)
         | PubKeyAlgoECDH \<Rightarrow> Some (config, ecdhKey)
         | PubKeyAlgoDilithium3Ed25519 \<Rightarrow> Some (config, matching)
         | PubKeyAlgoDilithium5Ed448 \<Rightarrow> Some (config, matching)
         | PubKeyAlgoDilithium3p256 \<Rightarrow> Some (config, matching)
         | PubKeyAlgoDilithium5p384 \<Rightarrow> Some (config, matching)
         | PubKeyAlgoDilithium3Brainpool256 \<Rightarrow> Some (config, matching)
         | PubKeyAlgoDilithium5Brainpool384 \<Rightarrow> Some (config, matching)
         | PubKeyAlgoSphincsPlusSha2 \<Rightarrow> Some (config, matching)
         | PubKeyAlgoSphincsPlusShake \<Rightarrow> Some (config, matching)
         | PubKeyAlgoKyber768X25519 \<Rightarrow> Some (config, kyber)
         | PubKeyAlgoKyber1024X448 \<Rightarrow> Some (config, kyber)
         | PubKeyAlgoKyber768P256 \<Rightarrow> Some (config, kyber)
         | PubKeyAlgoKyber1024P384 \<Rightarrow> Some (config, kyber)
         | PubKeyAlgoKyber768Brainpool256 \<Rightarrow> Some (config, kyber)
         | PubKeyAlgoKyber1024Brainpool384 \<Rightarrow> Some (config, kyber)
         | _ \<Rightarrow> Some (config, Inl (InvalidArgumentError ''unsupported public key algorithm'')))"

text \<open>Generators and a config to evaluate on: every generator and lookup fails.\<close>

definition testKeyGenerators :: "(unit, unit, unit, unit) KeyGenerators" where
  "testKeyGenerators =
     \<lparr> randPrime = noPrime,
       rsaGenerateKey = (\<lambda>random bits. Inl (ExternalError ''no generator'')),
       FindEdDSAByGenName = (\<lambda>name. None),
       FindECDSAByGenName = (\<lambda>name. None),
       FindECDHByGenName = (\<lambda>name. None),
       eddsaGenerateKey = (\<lambda>random curve. Inl (ExternalError ''no generator'')),
       ecdsaGenerateKey = (\<lambda>random curve. Inl (ExternalError ''no generator'')),
       ecdhGenerateKey = (\<lambda>random curve kdf. Inl (ExternalError ''no generator'')),
       GetECDSACurveFromAlgID = (\<lambda>algo. Inl (ExternalError ''no curve'')),
       GetEdDSACurveFromAlgID = (\<lambda>algo. Inl (ExternalError ''no curve'')),
       GetECDHCurveFromAlgID = (\<lambda>algo. Inl (ExternalError ''no curve'')),
       GetDilithiumFromAlgID = (\<lambda>algo. Inl (ExternalError ''no parameters'')),
       GetKyberFromAlgID = (\<lambda>algo. Inl (ExternalError ''no parameters'')),
       GetSphincsPlusModeFromAlgID = (\<lambda>algo. Inl (ExternalError ''no parameters'')),
       GetMatchingKyberKem = (\<lambda>algo. Inr PubKeyAlgoKyber768X25519),
       dilithiumEcdsaGenerateKey = (\<lambda>random a c d. Inl (ExternalError ''no generator'')),
       dilithiumEddsaGenerateKey = (\<lambda>random a c d. Inl (ExternalError ''no generator'')),
       sphincsPlusGenerateKey = (\<lambda>random mode param. Inl (ExternalError ''no generator'')),
       kyberEcdhGenerateKey = (\<lambda>random a c k. Inl (ExternalError ''no generator'')),
       algoByte = testByteOfAlgo \<rparr>"

definition testConfig :: "PublicKeyAlgorithm \<Rightarrow> unit Config" where
  "testConfig algo =
     \<lparr> PublicKeyAlgorithm = algo, RSAModulusBits = 2048, RSAPrimes = [], Random = (),
       CurveName = ''Curve25519'', V5Keys = False, SphincsPlusParam = 1, Hash = SHA512,
       Cipher = CipherAES256, Compression = CompressionOther 2, AEAD = None \<rparr>"

section \<open>addUserId (entity construction)\<close>

text \<open>
  The parts of \<open>packet.UserId\<close>, \<open>packet.Signature\<close>, \<open>Identity\<close> and \<open>Entity\<close> that
  \<open>addUserId\<close> reads and writes. A field whose name another record has already is
  prefixed (\<open>sigVersion\<close>, \<open>sigHash\<close>, ...). Pointers are options. \<open>RawSignature\<close> is what
  signing adds to the signature. The map \<open>Identities\<close> is an association list, newest
  entry first, and is not nil; \<open>Entity.PrimaryKey\<close> points to the public part of
  \<open>Entity.PrivateKey\<close> and \<open>Subkeys\<close> is not touched by \<open>addUserId\<close>: both are left out.
  Times are seconds.
\<close>

record UserId =
  Id :: string
  uidName :: string
  uidComment :: string
  uidEmail :: string

datatype SignatureType = SigTypePositiveCert | SigTypeSubkeyBinding | SigTypePrimaryKeyBinding

record Signature =
  sigVersion :: int
  SigType :: SignatureType
  sigPubKeyAlgo :: PublicKeyAlgorithm
  sigHash :: HashFunction
  CreationTime :: int
  KeyLifetimeSecs :: "32 word option"
  IssuerKeyId :: "64 word option"
  IssuerFingerprint :: bytes
  IsPrimaryId :: "bool option"
  FlagsValid :: bool
  FlagSign :: bool
  FlagCertify :: bool
  MDC :: bool
  sigAEAD :: bool
  sigV5Keys :: bool
  PreferredHash :: "byte list"
  PreferredSymmetric :: "byte list"
  PreferredCompression :: "byte list"
  PreferredAEAD :: "byte list"
  RawSignature :: "bytes option"

record Identity =
  Name :: string
  identUserId :: UserId
  SelfSignature :: Signature
  Signatures :: "Signature list"

record ('pk, 'sk) Entity =
  entPrivateKey :: "('pk, 'sk) PrivateKey"
  Identities :: "(string \<times> Identity) list"

text \<open>
  What \<open>addUserId\<close> calls in other files:
  \<^item> \<open>NewUserId\<close>, nil (\<open>None\<close>) for invalid characters;
  \<^item> \<open>hashToHashId\<close>, which panics (\<open>None\<close>) for a hash without an id;
  \<^item> \<open>cipherByte\<close>, \<open>compressionByte\<close>, \<open>aeadModeByte\<close>: the conversions \<open>uint8(...)\<close>;
  \<^item> \<open>Mode\<close>: \<open>(*AEADConfig).Mode()\<close>, also on a nil receiver;
  \<^item> \<open>SignUserId\<close>: the signature octets or the error. It is taken to leave the other
    fields of the signature as they are.
\<close>

record ('g, 'pk, 'sk) EntityCollaborators =
  NewUserId :: "string \<Rightarrow> string \<Rightarrow> string \<Rightarrow> UserId option"
  hashToHashId :: "HashFunction \<Rightarrow> byte option"
  cipherByte :: "CipherFunction \<Rightarrow> byte"
  compressionByte :: "CompressionAlgo \<Rightarrow> byte"
  aeadModeByte :: "AEADMode \<Rightarrow> byte"
  Mode :: "AEADConfig option \<Rightarrow> AEADMode"
  SignUserId :: "string \<Rightarrow> ('pk, 'sk) PrivateKey \<Rightarrow> 'g Config \<Rightarrow> Signature \<Rightarrow> error + bytes"

definition addUserId ::
  "('g, 'pk, 'sk) EntityCollaborators \<Rightarrow> ('pk, 'sk) Entity \<Rightarrow> string \<Rightarrow> string \<Rightarrow> string \<Rightarrow>
     'g Config \<Rightarrow> int \<Rightarrow> 32 word \<Rightarrow> (('pk, 'sk) Entity \<times> error option) outcome" where
  "addUserId X t name comment email config creationTime keyLifetimeSecs =
     (case NewUserId X name comment email of
        None \<Rightarrow>
          Returns (t, Some (InvalidArgumentError
            ''user id field contained invalid characters''))
      | Some uid \<Rightarrow>
          if map_of (Identities t) (Id uid) \<noteq> None
          then Returns (t, Some (InvalidArgumentError ''user id exist''))
          else
            let primary = entPrivateKey t;
                isPrimaryId = (length (Identities t) = 0);
                selfSignature =
                  \<lparr> sigVersion = pubVersion primary,
                    SigType = SigTypePositiveCert,
                    sigPubKeyAlgo = PubKeyAlgo primary,
                    sigHash = Hash config,
                    CreationTime = creationTime,
                    KeyLifetimeSecs = Some keyLifetimeSecs,
                    IssuerKeyId = Some (pubKeyId primary),
                    IssuerFingerprint = Fingerprint primary,
                    IsPrimaryId = Some isPrimaryId,
                    FlagsValid = True,
                    FlagSign = True,
                    FlagCertify = True,
                    MDC = True,
                    sigAEAD = (AEAD config \<noteq> None),
                    sigV5Keys = V5Keys config,
                    PreferredHash = [],
                    PreferredSymmetric = [],
                    PreferredCompression = [],
                    PreferredAEAD = [],
                    RawSignature = None \<rparr>
            in case hashToHashId X (Hash config) of
                 None \<Rightarrow> Panics
               | Some h \<Rightarrow>
                  (let s1 = selfSignature\<lparr>PreferredHash := [h]\<rparr>
                   in case (if Hash config \<noteq> SHA256
                            then (case hashToHashId X SHA256 of
                                    None \<Rightarrow> Panics
                                  | Some h256 \<Rightarrow>
                                      Returns (s1\<lparr>PreferredHash := PreferredHash s1 @ [h256]\<rparr>))
                            else Returns s1) of
                        Panics \<Rightarrow> Panics
                      | Returns s2 \<Rightarrow>
                         (let s3 = s2\<lparr>PreferredSymmetric := [cipherByte X (Cipher config)]\<rparr>;
                              s4 = (if Cipher config \<noteq> CipherAES128
                                    then s3\<lparr>PreferredSymmetric :=
                                              PreferredSymmetric s3 @ [cipherByte X CipherAES128]\<rparr>
                                    else s3);
                              s5 = s4\<lparr>PreferredCompression :=
                                        [compressionByte X CompressionNone]\<rparr>;
                              s6 = (if Compression config \<noteq> CompressionNone
                                    then s5\<lparr>PreferredCompression :=
                                              PreferredCompression s5
                                                @ [compressionByte X (Compression config)]\<rparr>
                                    else s5);
                              s7 = s6\<lparr>PreferredAEAD :=
                                        [aeadModeByte X (Mode X (AEAD config))]\<rparr>;
                              s8 = (if Mode X (AEAD config) \<noteq> AEADModeEAX
                                    then s7\<lparr>PreferredAEAD :=
                                              PreferredAEAD s7 @ [aeadModeByte X AEADModeEAX]\<rparr>
                                    else s7)
                          in case SignUserId X (Id uid) primary config s8 of
                               Inl err \<Rightarrow> Returns (t, Some err)
                             | Inr raw \<Rightarrow>
                                 (let signed = s8\<lparr>RawSignature := Some raw\<rparr>
                                  in Returns
                                       (t\<lparr>Identities :=
                                            (Id uid,
                                             \<lparr> Name = Id uid, identUserId = uid,
                                               SelfSignature = signed,
                                               Signatures = [signed] \<rparr>) # Identities t\<rparr>,
                                        None)))))"

text \<open>Collaborators and an entity to evaluate \<open>addUserId\<close> on.\<close>

definition testEntityCollaborators :: "(unit, unit, unit) EntityCollaborators" where
  "testEntityCollaborators =
     \<lparr> NewUserId = (\<lambda>name comment email.
         Some \<lparr> Id = name @ '' <'' @ email @ ''>'', uidName = name, uidComment = comment,
                uidEmail = email \<rparr>),
       hashToHashId = (\<lambda>h. case h of
                          SHA256 \<Rightarrow> Some 8 | SHA384 \<Rightarrow> Some 9 | SHA512 \<Rightarrow> Some 10
                        | _ \<Rightarrow> None),
       cipherByte = testByteOfCipher,
       compressionByte = (\<lambda>c. case c of CompressionNone \<Rightarrow> 0 | CompressionOther b \<Rightarrow> b),
       aeadModeByte = (\<lambda>a. case a of AEADModeEAX \<Rightarrow> 1 | AEADModeOther b \<Rightarrow> b),
       Mode = (\<lambda>c. case c of None \<Rightarrow> AEADModeEAX | Some conf \<Rightarrow> DefaultMode conf),
       SignUserId = (\<lambda>uid priv config sig. Inr [1]) \<rparr>"

definition testEntity :: "(unit, unit) Entity" where
  "testEntity =
     \<lparr> entPrivateKey = testPrivateKey PubKeyAlgoECDSA 4 (replicate 20 7) False,
       Identities = [] \<rparr>"

section \<open>Properties of the checksum\<close>

lemma ucast_byte_unat: "unat (ucast (v :: byte) :: 16 word) = unat v"
proof -
  have "unat v < 2 ^ 8" using unsigned_less [of v, where ?'a = nat] by simp
  then have "unat v < 2 ^ 16" by simp
  then show ?thesis by (simp add: unsigned_ucast_eq take_bit_nat_eq_self)
qed

lemma checksum_foldl_unat:
  "unat (foldl (\<lambda>checksum v. checksum + ucast v) (c :: 16 word) (key :: bytes)) =
     (unat c + sum_list (map unat key)) mod 65536"
proof (induction key arbitrary: c)
  case Nil
  have "unat c < 2 ^ 16" using unsigned_less [of c, where ?'a = nat] by simp
  then show ?case by simp
next
  case (Cons v vs)
  have "unat (c + ucast v) = (unat c + unat v) mod 65536"
    by (simp add: unat_word_ariths ucast_byte_unat)
  then show ?case
    using Cons.IH [of "c + ucast v"] by (simp add: mod_add_left_eq add.assoc)
qed

lemma checksumKeyMaterial_unat:
  "unat (checksumKeyMaterial key) = sum_list (map unat key) mod 65536"
  by (simp add: checksumKeyMaterial_def checksum_foldl_unat)

lemma be16_uint:
  "uint (push_bit 8 (ucast (hi :: byte) :: 16 word) OR ucast (lo :: byte)) =
     uint hi * 256 + uint lo"
proof -
  have lo8': "uint lo < 2 ^ 8" using uint_lt2p [of lo] by simp
  have hi8: "uint hi < 2 ^ 8" using uint_lt2p [of hi] by simp
  have lo8: "take_bit 8 (uint lo) = uint lo"
    using lo8' by (simp add: take_bit_int_eq_self)
  have lo16: "uint (ucast lo :: 16 word) = uint lo"
    using lo8' by (simp add: unsigned_ucast_eq take_bit_int_eq_self)
  have hi16: "uint (ucast hi :: 16 word) = uint hi"
    using hi8 by (simp add: unsigned_ucast_eq take_bit_int_eq_self)
  have "push_bit 8 (uint hi) < 2 ^ 16"
    using hi8 by (simp add: push_bit_eq_mult)
  then have hip: "uint (push_bit 8 (ucast hi :: 16 word)) = push_bit 8 (uint hi)"
    by (simp add: unsigned_push_bit_eq hi16 take_bit_int_eq_self)
  have "uint (push_bit 8 (ucast hi :: 16 word) OR ucast lo) = push_bit 8 (uint hi) OR uint lo"
    by (simp only: unsigned_or_eq hip lo16)
  also have "\<dots> = concat_bit 8 (uint lo) (uint hi)"
    by (simp only: concat_bit_def lo8 or.commute)
  also have "\<dots> = uint hi * 256 + uint lo"
    by (simp add: concat_bit_eq lo8 push_bit_eq_mult)
  finally show ?thesis .
qed

lemma be16_unat:
  "unat (push_bit 8 (ucast (hi :: byte) :: 16 word) OR ucast (lo :: byte)) =
     unat hi * 256 + unat lo"
proof -
  have "int (unat (push_bit 8 (ucast hi :: 16 word) OR ucast lo)) =
        int (unat hi * 256 + unat lo)"
    using be16_uint [of hi lo] by simp
  then show ?thesis by (simp only: of_nat_eq_iff)
qed

lemma split16_hi: "unat (ucast (drop_bit 8 (c :: 16 word)) :: byte) = unat c div 256"
proof -
  have "unat c < 2 ^ 16" using unsigned_less [of c, where ?'a = nat] by simp
  then have "unat c div 256 < 2 ^ 8" by simp
  then have "take_bit 8 (unat c div 256) = unat c div 256"
    by (simp add: take_bit_nat_eq_self)
  moreover have "unat (drop_bit 8 c) = unat c div 256"
    unfolding unat_drop_bit_eq by (simp add: drop_bit_eq_div)
  ultimately show ?thesis
    by (simp only: unsigned_ucast_eq) simp
qed

lemma split16_lo: "unat (ucast (c :: 16 word) :: byte) = unat c mod 256"
  by (simp add: unsigned_ucast_eq take_bit_eq_mod)

lemma be16_split16:
  "push_bit 8 (ucast (ucast (drop_bit 8 (c :: 16 word)) :: byte) :: 16 word)
     OR ucast (ucast c :: byte) = c"
proof -
  have hi: "unat (ucast (drop_bit 8 c) :: byte) = unat c div 256"
    by (rule split16_hi)
  have lo: "unat (ucast c :: byte) = unat c mod 256"
    by (rule split16_lo)
  have "unat (push_bit 8 (ucast (ucast (drop_bit 8 c) :: byte) :: 16 word)
          OR ucast (ucast c :: byte)) =
        unat (ucast (drop_bit 8 c) :: byte) * 256 + unat (ucast c :: byte)"
    by (rule be16_unat)
  also have "\<dots> = unat c div 256 * 256 + unat c mod 256"
    by (simp only: hi lo)
  also have "\<dots> = unat c"
    by simp
  finally show ?thesis by (simp only: word_unat_eq_iff)
qed

lemma encodeChecksumKey_fresh:
  "encodeChecksumKey (replicate (length k + 2) 0) k =
     Returns (k @ [ucast (drop_bit 8 (checksumKeyMaterial k)), ucast (checksumKeyMaterial k)])"
proof -
  have "replicate (length k + 2) (0 :: byte) = replicate (length k) 0 @ replicate 2 0"
    by (rule replicate_add)
  moreover have "replicate 2 (0 :: byte) = [0, 0]"
    by (simp add: numeral_2_eq_2)
  ultimately have "drop (length k) (replicate (length k + 2) (0 :: byte)) = [0, 0]"
    by (simp only: drop_append) simp
  then show ?thesis
    by (simp add: encodeChecksumKey_def Let_def list_update_append)
qed

lemma decodeChecksumKey_append:
  "decodeChecksumKey (k @ [hi, lo]) =
     Returns (k, if checksumKeyMaterial k \<noteq> push_bit 8 (ucast hi) OR ucast lo
                 then Some (StructuralError ''session key checksum is incorrect'')
                 else None)"
  by (simp add: decodeChecksumKey_def Let_def nth_append)

lemma decodeChecksumKey_structural_iff:
  "decodeChecksumKey msg =
     Returns (take (length msg - 2) msg,
              Some (StructuralError ''session key checksum is incorrect''))
   \<longleftrightarrow> 2 \<le> length msg \<and>
       unat (msg ! (length msg - 2)) * 256 + unat (msg ! (length msg - 1)) \<noteq>
         sum_list (map unat (take (length msg - 2) msg)) mod 65536"
proof (cases "length msg < 2")
  case True
  then show ?thesis by (simp add: decodeChecksumKey_def)
next
  case False
  have "checksumKeyMaterial (take (length msg - 2) msg) \<noteq>
          push_bit 8 (ucast (msg ! (length msg - 2)) :: 16 word)
            OR ucast (msg ! (length msg - 1))
        \<longleftrightarrow> sum_list (map unat (take (length msg - 2) msg)) mod 65536 \<noteq>
            unat (msg ! (length msg - 2)) * 256 + unat (msg ! (length msg - 1))"
    by (simp only: word_unat_eq_iff checksumKeyMaterial_unat be16_unat)
  with False show ?thesis
    by (auto simp: decodeChecksumKey_def Let_def)
qed

section \<open>Claims about the checksum codec\<close>

text \<open>
  Claim C5. The checksum codec is an exact round trip: encoding a key \<open>k\<close> (of any
  length, so also of every length up to 64) into a fresh buffer of \<open>length k + 2\<close>
  bytes, as the serializer allocates it, and decoding the result returns \<open>k\<close> with no
  error. And \<open>decodeChecksumKey\<close> returns the structural error ``session key checksum is
  incorrect'' exactly when the message has its two trailing bytes and they, read
  big-endian, differ from the sum of the preceding bytes modulo \<open>2^16\<close>.
\<close>

theorem checksum_codec_roundtrip:
  "(\<exists>b. encodeChecksumKey (replicate (length k + 2) 0) k = Returns b \<and>
        decodeChecksumKey b = Returns (k, None)) \<and>
   (decodeChecksumKey msg =
      Returns (take (length msg - 2) msg,
               Some (StructuralError ''session key checksum is incorrect''))
    \<longleftrightarrow> 2 \<le> length msg \<and>
        unat (msg ! (length msg - 2)) * 256 + unat (msg ! (length msg - 1)) \<noteq>
          sum_list (map unat (take (length msg - 2) msg)) mod 65536)"
proof
  let ?b = "k @ [ucast (drop_bit 8 (checksumKeyMaterial k)), ucast (checksumKeyMaterial k)]"
  have enc: "encodeChecksumKey (replicate (length k + 2) 0) k = Returns ?b"
    by (rule encodeChecksumKey_fresh)
  have dec: "decodeChecksumKey ?b = Returns (k, None)"
    by (simp only: decodeChecksumKey_append be16_split16) simp
  from enc dec
  show "\<exists>b. encodeChecksumKey (replicate (length k + 2) 0) k = Returns b \<and>
            decodeChecksumKey b = Returns (k, None)"
    by blast
  show "decodeChecksumKey msg =
      Returns (take (length msg - 2) msg,
               Some (StructuralError ''session key checksum is incorrect''))
    \<longleftrightarrow> 2 \<le> length msg \<and>
        unat (msg ! (length msg - 2)) * 256 + unat (msg ! (length msg - 1)) \<noteq>
          sum_list (map unat (take (length msg - 2) msg)) mod 65536"
    by (rule decodeChecksumKey_structural_iff)
qed

section \<open>Claims about Decrypt\<close>

lemma Decrypt_key_id_mismatch:
  "Version e < 6 \<Longrightarrow> KeyId e \<noteq> 0 \<Longrightarrow> KeyId e \<noteq> pubKeyId priv \<Longrightarrow>
   Decrypt C e priv = Returns (e, Some (InvalidArgumentError
     ''cannot decrypt encrypted session key for key id ''))"
  by (simp add: Decrypt_def)

lemma Decrypt_fingerprint_mismatch:
  "Version e = 6 \<Longrightarrow> KeyVersion e \<noteq> 0 \<Longrightarrow> KeyFingerprint e \<noteq> Fingerprint priv \<Longrightarrow>
   Decrypt C e priv = Returns (e, Some (InvalidArgumentError
     ''cannot decrypt encrypted session key for key fingerprint ''))"
  by (simp add: Decrypt_def)

lemma Decrypt_issuer_ok_algo_mismatch:
  "\<not> (Version e < 6 \<and> KeyId e \<noteq> 0 \<and> KeyId e \<noteq> pubKeyId priv) \<Longrightarrow>
   \<not> (Version e = 6 \<and> KeyVersion e \<noteq> 0 \<and> KeyFingerprint e \<noteq> Fingerprint priv) \<Longrightarrow>
   Algo e \<noteq> PubKeyAlgo priv \<Longrightarrow>
   Decrypt C e priv = Returns (e, Some (InvalidArgumentError
     ''cannot decrypt encrypted session key of type ''))"
  by (simp add: Decrypt_def)

lemma Decrypt_checks_ok_dummy:
  "\<not> (Version e < 6 \<and> KeyId e \<noteq> 0 \<and> KeyId e \<noteq> pubKeyId priv) \<Longrightarrow>
   \<not> (Version e = 6 \<and> KeyVersion e \<noteq> 0 \<and> KeyFingerprint e \<noteq> Fingerprint priv) \<Longrightarrow>
   Algo e = PubKeyAlgo priv \<Longrightarrow> Dummy priv \<Longrightarrow>
   Decrypt C e priv = Returns (e, Some (ErrDummyPrivateKey ''dummy key found''))"
  by (simp add: Decrypt_def)

lemma Decrypt_checks_ok:
  "\<not> (Version e < 6 \<and> KeyId e \<noteq> 0 \<and> KeyId e \<noteq> pubKeyId priv) \<Longrightarrow>
   \<not> (Version e = 6 \<and> KeyVersion e \<noteq> 0 \<and> KeyFingerprint e \<noteq> Fingerprint priv) \<Longrightarrow>
   Algo e = PubKeyAlgo priv \<Longrightarrow> \<not> Dummy priv \<Longrightarrow>
   Decrypt C e priv =
     (case decryptPrimitive C e priv of
        Panics \<Rightarrow> Panics
      | Returns (Inl err) \<Rightarrow> Returns (e, Some err)
      | Returns (Inr b) \<Rightarrow> stripEnvelope C e priv b)"
  by (auto simp: Decrypt_def)

lemma Decrypt_algo_mismatch:
  assumes "Algo e \<noteq> PubKeyAlgo priv"
  shows "\<exists>m. \<forall>C :: ('r, 'pk, 'sk) Collaborators.
           Decrypt C e priv = Returns (e, Some (InvalidArgumentError m))"
proof (cases "Version e < 6 \<and> KeyId e \<noteq> 0 \<and> KeyId e \<noteq> pubKeyId priv")
  case True
  then show ?thesis using Decrypt_key_id_mismatch [of e priv] by blast
next
  case a: False
  show ?thesis
  proof (cases "Version e = 6 \<and> KeyVersion e \<noteq> 0 \<and> KeyFingerprint e \<noteq> Fingerprint priv")
    case True
    then show ?thesis using Decrypt_fingerprint_mismatch [of e priv] by blast
  next
    case False
    with a assms show ?thesis
      using Decrypt_issuer_ok_algo_mismatch [of e priv] by blast
  qed
qed

lemma Decrypt_dummy:
  assumes "Dummy priv"
  shows "\<exists>err. (\<forall>C :: ('r, 'pk, 'sk) Collaborators.
                  Decrypt C e priv = Returns (e, Some err)) \<and>
           (err = ErrDummyPrivateKey ''dummy key found'' \<or> (\<exists>m. err = InvalidArgumentError m))"
proof (cases "Algo e \<noteq> PubKeyAlgo priv")
  case True
  from Decrypt_algo_mismatch [OF True, where ?'r = 'r]
  show ?thesis by blast
next
  case algo: False
  show ?thesis
  proof (cases "Version e < 6 \<and> KeyId e \<noteq> 0 \<and> KeyId e \<noteq> pubKeyId priv")
    case True
    then show ?thesis using Decrypt_key_id_mismatch [of e priv] by blast
  next
    case a: False
    show ?thesis
    proof (cases "Version e = 6 \<and> KeyVersion e \<noteq> 0 \<and> KeyFingerprint e \<noteq> Fingerprint priv")
      case True
      then show ?thesis using Decrypt_fingerprint_mismatch [of e priv] by blast
    next
      case False
      with a algo assms show ?thesis
        using Decrypt_checks_ok_dummy [of e priv] by blast
    qed
  qed
qed

text \<open>
  Claim C7. \<open>Decrypt\<close> rejects before it calls a primitive: the result below is the same
  for all collaborators, and the packet comes back unchanged, so its \<open>Key\<close> stays as it
  was. A version 3 packet with a key id that is neither zero nor the private key's gives
  an invalid-argument error; so does a version 6 packet with a key version other than
  zero and a fingerprint other than the private key's; so does a packet whose algorithm is
  not the private key's. A dummy private key always gives the dummy-key error or, when
  one of the three earlier checks fires first, an invalid-argument error; it gives the
  dummy-key error whenever the issuer and the algorithm match.
\<close>

theorem decrypt_rejects_before_primitive:
  "(Version e < 6 \<and> KeyId e \<noteq> 0 \<and> KeyId e \<noteq> pubKeyId priv \<longrightarrow>
      (\<exists>m. \<forall>C :: ('r, 'pk, 'sk) Collaborators.
         Decrypt C e priv = Returns (e, Some (InvalidArgumentError m)))) \<and>
   (Version e = 6 \<and> KeyVersion e \<noteq> 0 \<and> KeyFingerprint e \<noteq> Fingerprint priv \<longrightarrow>
      (\<exists>m. \<forall>C :: ('r, 'pk, 'sk) Collaborators.
         Decrypt C e priv = Returns (e, Some (InvalidArgumentError m)))) \<and>
   (Algo e \<noteq> PubKeyAlgo priv \<longrightarrow>
      (\<exists>m. \<forall>C :: ('r, 'pk, 'sk) Collaborators.
         Decrypt C e priv = Returns (e, Some (InvalidArgumentError m)))) \<and>
   (Dummy priv \<longrightarrow>
      (\<exists>err. (\<forall>C :: ('r, 'pk, 'sk) Collaborators. Decrypt C e priv = Returns (e, Some err)) \<and>
         (err = ErrDummyPrivateKey ''dummy key found'' \<or> (\<exists>m. err = InvalidArgumentError m)))) \<and>
   (Dummy priv \<and> Algo e = PubKeyAlgo priv \<and>
    \<not> (Version e < 6 \<and> KeyId e \<noteq> 0 \<and> KeyId e \<noteq> pubKeyId priv) \<and>
    \<not> (Version e = 6 \<and> KeyVersion e \<noteq> 0 \<and> KeyFingerprint e \<noteq> Fingerprint priv) \<longrightarrow>
      (\<forall>C :: ('r, 'pk, 'sk) Collaborators.
         Decrypt C e priv = Returns (e, Some (ErrDummyPrivateKey ''dummy key found''))))"
proof (intro conjI impI)
  assume "Version e < 6 \<and> KeyId e \<noteq> 0 \<and> KeyId e \<noteq> pubKeyId priv"
  then show "\<exists>m. \<forall>C :: ('r, 'pk, 'sk) Collaborators.
      Decrypt C e priv = Returns (e, Some (InvalidArgumentError m))"
    using Decrypt_key_id_mismatch [of e priv] by blast
next
  assume "Version e = 6 \<and> KeyVersion e \<noteq> 0 \<and> KeyFingerprint e \<noteq> Fingerprint priv"
  then show "\<exists>m. \<forall>C :: ('r, 'pk, 'sk) Collaborators.
      Decrypt C e priv = Returns (e, Some (InvalidArgumentError m))"
    using Decrypt_fingerprint_mismatch [of e priv] by blast
next
  assume "Algo e \<noteq> PubKeyAlgo priv"
  then show "\<exists>m. \<forall>C :: ('r, 'pk, 'sk) Collaborators.
      Decrypt C e priv = Returns (e, Some (InvalidArgumentError m))"
    by (rule Decrypt_algo_mismatch)
next
  assume "Dummy priv"
  then show "\<exists>err. (\<forall>C :: ('r, 'pk, 'sk) Collaborators. Decrypt C e priv = Returns (e, Some err)) \<and>
         (err = ErrDummyPrivateKey ''dummy key found'' \<or> (\<exists>m. err = InvalidArgumentError m))"
    by (rule Decrypt_dummy)
next
  assume "Dummy priv \<and> Algo e = PubKeyAlgo priv \<and>
    \<not> (Version e < 6 \<and> KeyId e \<noteq> 0 \<and> KeyId e \<noteq> pubKeyId priv) \<and>
    \<not> (Version e = 6 \<and> KeyVersion e \<noteq> 0 \<and> KeyFingerprint e \<noteq> Fingerprint priv)"
  then show "\<forall>C :: ('r, 'pk, 'sk) Collaborators.
         Decrypt C e priv = Returns (e, Some (ErrDummyPrivateKey ''dummy key found''))"
    using Decrypt_checks_ok_dummy [of e priv] by blast
qed

theorem decrypt_rejects_before_primitive_witness:
  "(\<exists>m. Decrypt testCollaborators
     (emptyEncryptedKey\<lparr>Version := 3, KeyId := 9, Algo := PubKeyAlgoRSA\<rparr>)
     (testPrivateKey PubKeyAlgoRSA 4 (replicate 20 7) False) =
     Returns (emptyEncryptedKey\<lparr>Version := 3, KeyId := 9, Algo := PubKeyAlgoRSA\<rparr>,
       Some (InvalidArgumentError m))) \<and>
   (\<exists>m. Decrypt testCollaborators
     (emptyEncryptedKey\<lparr>Version := 6, KeyVersion := 4, KeyFingerprint := replicate 20 1,
        Algo := PubKeyAlgoRSA\<rparr>)
     (testPrivateKey PubKeyAlgoRSA 4 (replicate 20 7) False) =
     Returns (emptyEncryptedKey\<lparr>Version := 6, KeyVersion := 4,
        KeyFingerprint := replicate 20 1, Algo := PubKeyAlgoRSA\<rparr>,
       Some (InvalidArgumentError m))) \<and>
   (\<exists>m. Decrypt testCollaborators
     (emptyEncryptedKey\<lparr>Version := 3, KeyId := 5, Algo := PubKeyAlgoElGamal\<rparr>)
     (testPrivateKey PubKeyAlgoRSA 4 (replicate 20 7) False) =
     Returns (emptyEncryptedKey\<lparr>Version := 3, KeyId := 5, Algo := PubKeyAlgoElGamal\<rparr>,
       Some (InvalidArgumentError m))) \<and>
   Decrypt testCollaborators
     (emptyEncryptedKey\<lparr>Version := 3, KeyId := 0, Algo := PubKeyAlgoRSA\<rparr>)
     (testPrivateKey PubKeyAlgoRSA 4 (replicate 20 7) True) =
     Returns (emptyEncryptedKey\<lparr>Version := 3, KeyId := 0, Algo := PubKeyAlgoRSA\<rparr>,
       Some (ErrDummyPrivateKey ''dummy key found''))"
proof -
  let ?p = "testPrivateKey PubKeyAlgoRSA 4 (replicate 20 7) False"
  let ?d = "testPrivateKey PubKeyAlgoRSA 4 (replicate 20 7) True"
  let ?e1 = "emptyEncryptedKey\<lparr>Version := 3, KeyId := 9, Algo := PubKeyAlgoRSA\<rparr>"
  let ?e2 = "emptyEncryptedKey\<lparr>Version := 6, KeyVersion := 4,
               KeyFingerprint := replicate 20 1, Algo := PubKeyAlgoRSA\<rparr>"
  let ?e3 = "emptyEncryptedKey\<lparr>Version := 3, KeyId := 5, Algo := PubKeyAlgoElGamal\<rparr>"
  let ?e4 = "emptyEncryptedKey\<lparr>Version := 3, KeyId := 0, Algo := PubKeyAlgoRSA\<rparr>"
  have h1: "Version ?e1 < 6 \<and> KeyId ?e1 \<noteq> 0 \<and> KeyId ?e1 \<noteq> pubKeyId ?p"
    by (simp add: testPrivateKey_def)
  have h2: "Version ?e2 = 6 \<and> KeyVersion ?e2 \<noteq> 0 \<and> KeyFingerprint ?e2 \<noteq> Fingerprint ?p"
    by (simp add: testPrivateKey_def)
  have h3: "Algo ?e3 \<noteq> PubKeyAlgo ?p"
    by (simp add: testPrivateKey_def)
  have h4: "Dummy ?d \<and> Algo ?e4 = PubKeyAlgo ?d \<and>
      \<not> (Version ?e4 < 6 \<and> KeyId ?e4 \<noteq> 0 \<and> KeyId ?e4 \<noteq> pubKeyId ?d) \<and>
      \<not> (Version ?e4 = 6 \<and> KeyVersion ?e4 \<noteq> 0 \<and> KeyFingerprint ?e4 \<noteq> Fingerprint ?d)"
    by (simp add: testPrivateKey_def)
  note t1 = decrypt_rejects_before_primitive [of ?e1 ?p, where ?'r = unit]
  note t2 = decrypt_rejects_before_primitive [of ?e2 ?p, where ?'r = unit]
  note t3 = decrypt_rejects_before_primitive [of ?e3 ?p, where ?'r = unit]
  note t4 = decrypt_rejects_before_primitive [of ?e4 ?d, where ?'r = unit]
  from t1 [THEN conjunct1, THEN mp, OF h1]
  have c1: "\<exists>m. Decrypt testCollaborators ?e1 ?p = Returns (?e1, Some (InvalidArgumentError m))"
    by blast
  from t2 [THEN conjunct2, THEN conjunct1, THEN mp, OF h2]
  have c2: "\<exists>m. Decrypt testCollaborators ?e2 ?p = Returns (?e2, Some (InvalidArgumentError m))"
    by blast
  from t3 [THEN conjunct2, THEN conjunct2, THEN conjunct1, THEN mp, OF h3]
  have c3: "\<exists>m. Decrypt testCollaborators ?e3 ?p = Returns (?e3, Some (InvalidArgumentError m))"
    by blast
  from t4 [THEN conjunct2, THEN conjunct2, THEN conjunct2, THEN conjunct2, THEN mp, OF h4]
  have c4: "Decrypt testCollaborators ?e4 ?d =
      Returns (?e4, Some (ErrDummyPrivateKey ''dummy key found''))"
    by blast
  from c1 c2 c3 c4 show ?thesis by (intro conjI)
qed

lemma stripEnvelope_classical:
  "PubKeyAlgo priv = PubKeyAlgoRSA \<or> PubKeyAlgo priv = PubKeyAlgoRSAEncryptOnly \<or>
   PubKeyAlgo priv = PubKeyAlgoElGamal \<or> PubKeyAlgo priv = PubKeyAlgoECDH \<Longrightarrow>
   stripEnvelope C e priv b = classicalEnvelope C e b"
  by (auto simp: stripEnvelope_def)

lemma stripEnvelope_cfrg:
  "PubKeyAlgo priv = PubKeyAlgoX25519 \<or> PubKeyAlgo priv = PubKeyAlgoX448 \<Longrightarrow>
   stripEnvelope C e priv b = cfrgEnvelope e b"
  by (auto simp: stripEnvelope_def)

lemma classicalEnvelope_short:
  assumes "if Version e < 6
           then b = [] \<or> IsSupported C (cipherOfByte C (hd b)) \<and> length b < 3
           else length b < 2"
  shows "classicalEnvelope C e b = Panics"
proof (cases b)
  case Nil
  then show ?thesis
    using assms by (simp add: classicalEnvelope_def decodeChecksumKey_def split: if_splits)
next
  case (Cons b0 rest)
  then show ?thesis
    using assms
    by (simp add: classicalEnvelope_def decodeChecksumKey_def Let_def split: if_splits)
qed

lemma testCollaborators_rsaDecrypt: "rsaDecrypt testCollaborators sk c = Inr c"
  by (simp add: testCollaborators_def)

text \<open>
  Claim C10. \<open>Decrypt\<close> is not total in the length of the plaintext that the primitive
  returns. For a packet of RSA, ElGamal or ECDH that passes the issuer, algorithm and
  dummy checks and whose primitive returns the plaintext \<open>b\<close>: before version 6 an empty
  \<open>b\<close> makes \<open>b[0]\<close> panic, and a \<open>b\<close> of one or two bytes with a supported cipher octet
  makes \<open>decodeChecksumKey\<close> panic on \<open>msg[:len(msg)-2]\<close>; at version 6 a \<open>b\<close> of fewer than
  two bytes does. No error is returned in these cases.
\<close>

theorem decrypt_short_plaintext_panics:
  assumes "\<not> (Version e < 6 \<and> KeyId e \<noteq> 0 \<and> KeyId e \<noteq> pubKeyId priv)"
    and "\<not> (Version e = 6 \<and> KeyVersion e \<noteq> 0 \<and> KeyFingerprint e \<noteq> Fingerprint priv)"
    and "Algo e = PubKeyAlgo priv"
    and "\<not> Dummy priv"
    and "PubKeyAlgo priv = PubKeyAlgoRSA \<or> PubKeyAlgo priv = PubKeyAlgoRSAEncryptOnly \<or>
         PubKeyAlgo priv = PubKeyAlgoElGamal \<or> PubKeyAlgo priv = PubKeyAlgoECDH"
    and "decryptPrimitive C e priv = Returns (Inr b)"
    and "if Version e < 6
         then b = [] \<or> IsSupported C (cipherOfByte C (hd b)) \<and> length b < 3
         else length b < 2"
  shows "Decrypt C e priv = Panics"
proof -
  have "Decrypt C e priv = stripEnvelope C e priv b"
    using Decrypt_checks_ok [OF assms(1-4), of C] assms(6) by simp
  also have "\<dots> = classicalEnvelope C e b"
    using assms(5) by (rule stripEnvelope_classical)
  also have "\<dots> = Panics"
    using assms(7) by (rule classicalEnvelope_short)
  finally show ?thesis .
qed

theorem decrypt_short_plaintext_panics_witness:
  "Decrypt testCollaborators
     (emptyEncryptedKey\<lparr>Version := 3, KeyId := 5, Algo := PubKeyAlgoRSA,
        encryptedMPI1 := Some (MPI [] 0)\<rparr>)
     (testPrivateKey PubKeyAlgoRSA 4 (replicate 20 7) False) = Panics \<and>
   Decrypt testCollaborators
     (emptyEncryptedKey\<lparr>Version := 6, KeyVersion := 0, Algo := PubKeyAlgoRSA,
        encryptedMPI1 := Some (MPI [1] 1)\<rparr>)
     (testPrivateKey PubKeyAlgoRSA 4 (replicate 20 7) False) = Panics"
proof -
  let ?p = "testPrivateKey PubKeyAlgoRSA 4 (replicate 20 7) False"
  let ?e1 = "emptyEncryptedKey\<lparr>Version := 3, KeyId := 5, Algo := PubKeyAlgoRSA,
               encryptedMPI1 := Some (MPI [] 0)\<rparr>"
  let ?e2 = "emptyEncryptedKey\<lparr>Version := 6, KeyVersion := 0, Algo := PubKeyAlgoRSA,
               encryptedMPI1 := Some (MPI [1] 1)\<rparr>"
  have p: "PubKeyAlgo ?p = PubKeyAlgoRSA" "\<not> Dummy ?p" "pubKeyId ?p = 5"
    by (simp_all add: testPrivateKey_def)
  have d1: "decryptPrimitive testCollaborators ?e1 ?p = Returns (Inr [])"
    by (simp add: decryptPrimitive_def p testCollaborators_rsaDecrypt)
  have d2: "decryptPrimitive testCollaborators ?e2 ?p = Returns (Inr [1])"
    by (simp add: decryptPrimitive_def p testCollaborators_rsaDecrypt)
  have "Decrypt testCollaborators ?e1 ?p = Panics"
    by (rule decrypt_short_plaintext_panics [where b = "[]"]) (simp_all add: p d1)
  moreover have "Decrypt testCollaborators ?e2 ?p = Panics"
    by (rule decrypt_short_plaintext_panics [where b = "[1]"]) (simp_all add: p d2)
  ultimately show ?thesis by (rule conjI)
qed

section \<open>Claims about SerializeEncryptedKeyAEAD\<close>

text \<open>
  Claim C8. For every public key of algorithm ElGamal, \<open>SerializeEncryptedKeyAEAD\<close> with
  \<open>aeadSupported\<close> true, that is at version 6, fails with the invalid-argument error
  ``ElGamal v6 PKESK are not allowed'' and leaves the output \<open>w\<close> as it was.
\<close>

theorem elgamal_v6_rejected:
  "PubKeyAlgo pub = PubKeyAlgoElGamal \<Longrightarrow>
   SerializeEncryptedKeyAEAD C w pub cipherFunc True key rand =
     Returns (w, Some (InvalidArgumentError ''ElGamal v6 PKESK are not allowed''))"
  by (simp add: SerializeEncryptedKeyAEAD_def)

theorem elgamal_v6_rejected_witness:
  "SerializeEncryptedKeyAEAD testCollaborators [1, 2, 3]
     (testPublicKey PubKeyAlgoElGamal 4 (replicate 20 7)) CipherAES256 True (replicate 32 9) () =
     Returns ([1, 2, 3], Some (InvalidArgumentError ''ElGamal v6 PKESK are not allowed''))"
proof -
  have "PubKeyAlgo (testPublicKey PubKeyAlgoElGamal 4 (replicate 20 7)) = PubKeyAlgoElGamal"
    by (simp add: testPublicKey_def)
  then show ?thesis by (rule elgamal_v6_rejected)
qed

lemma SerializeEncryptedKeyAEAD_cfrg_v3_not_aes:
  "PubKeyAlgo pub = PubKeyAlgoX25519 \<or> PubKeyAlgo pub = PubKeyAlgoX448 \<Longrightarrow>
   cipherFunc \<noteq> CipherAES128 \<Longrightarrow> cipherFunc \<noteq> CipherAES192 \<Longrightarrow> cipherFunc \<noteq> CipherAES256 \<Longrightarrow>
   SerializeEncryptedKeyAEAD C w pub cipherFunc False key rand =
     Returns (w, Some (InvalidArgumentError ''v3 PKESK mandates AES for x25519 and x448''))"
  by (auto simp: SerializeEncryptedKeyAEAD_def)

lemma decryptPrimitive_cfrg_returns:
  "PubKeyAlgo priv = PubKeyAlgoX25519 \<or> PubKeyAlgo priv = PubKeyAlgoX448 \<Longrightarrow>
   \<exists>res. decryptPrimitive C e priv = Returns res"
  by (auto simp: decryptPrimitive_def)

lemma cfrgEnvelope_v3_not_aes:
  "Version e < 6 \<Longrightarrow>
   CipherFunc e \<noteq> CipherAES128 \<Longrightarrow> CipherFunc e \<noteq> CipherAES192 \<Longrightarrow> CipherFunc e \<noteq> CipherAES256 \<Longrightarrow>
   cfrgEnvelope e b = Returns (e, Some (StructuralError
     ''v3 PKESK mandates AES as cipher function for x25519 and x448''))"
  by (simp add: cfrgEnvelope_def)

lemma Decrypt_cfrg_v3_not_aes_fails:
  assumes v: "Version e < 6"
    and a: "Algo e = PubKeyAlgoX25519 \<or> Algo e = PubKeyAlgoX448"
    and c: "CipherFunc e \<noteq> CipherAES128" "CipherFunc e \<noteq> CipherAES192"
           "CipherFunc e \<noteq> CipherAES256"
  shows "\<exists>err. Decrypt C e priv = Returns (e, Some err)"
proof (cases "\<not> (Version e < 6 \<and> KeyId e \<noteq> 0 \<and> KeyId e \<noteq> pubKeyId priv) \<and>
              Algo e = PubKeyAlgo priv \<and> \<not> Dummy priv")
  case True
  then have ok: "\<not> (Version e < 6 \<and> KeyId e \<noteq> 0 \<and> KeyId e \<noteq> pubKeyId priv)"
    "\<not> (Version e = 6 \<and> KeyVersion e \<noteq> 0 \<and> KeyFingerprint e \<noteq> Fingerprint priv)"
    "Algo e = PubKeyAlgo priv" "\<not> Dummy priv"
    using v by auto
  have pa: "PubKeyAlgo priv = PubKeyAlgoX25519 \<or> PubKeyAlgo priv = PubKeyAlgoX448"
    using a ok(3) by simp
  obtain res where res: "decryptPrimitive C e priv = Returns res"
    using decryptPrimitive_cfrg_returns [OF pa] by blast
  show ?thesis
  proof (cases res)
    case (Inl err)
    then show ?thesis using Decrypt_checks_ok [OF ok, of C] res by simp
  next
    case (Inr b)
    then show ?thesis
      using Decrypt_checks_ok [OF ok, of C] res stripEnvelope_cfrg [OF pa, of C e b]
        cfrgEnvelope_v3_not_aes [OF v c, of b] by simp
  qed
next
  case False
  then show ?thesis by (auto simp: Decrypt_def)
qed

lemma Decrypt_cfrg_v3_not_aes_structural:
  assumes v: "Version e < 6"
    and a: "Algo e = PubKeyAlgoX25519 \<or> Algo e = PubKeyAlgoX448"
    and c: "CipherFunc e \<noteq> CipherAES128" "CipherFunc e \<noteq> CipherAES192"
           "CipherFunc e \<noteq> CipherAES256"
    and k: "KeyId e = 0 \<or> KeyId e = pubKeyId priv"
    and m: "Algo e = PubKeyAlgo priv" and d: "\<not> Dummy priv"
    and b: "decryptPrimitive C e priv = Returns (Inr b)"
  shows "Decrypt C e priv = Returns (e, Some (StructuralError
           ''v3 PKESK mandates AES as cipher function for x25519 and x448''))"
proof -
  have ok: "\<not> (Version e < 6 \<and> KeyId e \<noteq> 0 \<and> KeyId e \<noteq> pubKeyId priv)"
    "\<not> (Version e = 6 \<and> KeyVersion e \<noteq> 0 \<and> KeyFingerprint e \<noteq> Fingerprint priv)"
    using v k by auto
  have pa: "PubKeyAlgo priv = PubKeyAlgoX25519 \<or> PubKeyAlgo priv = PubKeyAlgoX448"
    using a m by simp
  show ?thesis
    using Decrypt_checks_ok [OF ok m d, of C] b stripEnvelope_cfrg [OF pa, of C e b]
      cfrgEnvelope_v3_not_aes [OF v c, of b] by simp
qed

text \<open>
  Claim C4. For X25519 and X448 at version 3 (\<open>aeadSupported\<close> false), serializing with a
  cipher function other than AES-128, AES-192 or AES-256 fails with an invalid-argument
  error and writes nothing. Decrypting a packet of a version below 6 for X25519 or X448
  whose cipher function is none of the three always fails and leaves the packet as it was;
  the error is the structural error ``v3 PKESK mandates AES as cipher function for x25519
  and x448'' when the private key passes the checks of \<open>Decrypt\<close> (key id zero or equal,
  same algorithm, not a dummy) and the primitive returns a plaintext, since the cipher
  function is checked after the primitive has run.
\<close>

theorem cfrg_v3_mandates_aes:
  "((PubKeyAlgo pub = PubKeyAlgoX25519 \<or> PubKeyAlgo pub = PubKeyAlgoX448) \<and>
    cipherFunc \<noteq> CipherAES128 \<and> cipherFunc \<noteq> CipherAES192 \<and> cipherFunc \<noteq> CipherAES256 \<longrightarrow>
      SerializeEncryptedKeyAEAD C w pub cipherFunc False key rand =
        Returns (w, Some (InvalidArgumentError ''v3 PKESK mandates AES for x25519 and x448''))) \<and>
   (Version e < 6 \<and> (Algo e = PubKeyAlgoX25519 \<or> Algo e = PubKeyAlgoX448) \<and>
    CipherFunc e \<noteq> CipherAES128 \<and> CipherFunc e \<noteq> CipherAES192 \<and> CipherFunc e \<noteq> CipherAES256 \<longrightarrow>
      (\<exists>err. Decrypt C e priv = Returns (e, Some err)) \<and>
      ((KeyId e = 0 \<or> KeyId e = pubKeyId priv) \<and> Algo e = PubKeyAlgo priv \<and> \<not> Dummy priv \<and>
       decryptPrimitive C e priv = Returns (Inr b) \<longrightarrow>
         Decrypt C e priv = Returns (e, Some (StructuralError
           ''v3 PKESK mandates AES as cipher function for x25519 and x448''))))"
proof (intro conjI impI)
  assume "(PubKeyAlgo pub = PubKeyAlgoX25519 \<or> PubKeyAlgo pub = PubKeyAlgoX448) \<and>
    cipherFunc \<noteq> CipherAES128 \<and> cipherFunc \<noteq> CipherAES192 \<and> cipherFunc \<noteq> CipherAES256"
  then show "SerializeEncryptedKeyAEAD C w pub cipherFunc False key rand =
        Returns (w, Some (InvalidArgumentError ''v3 PKESK mandates AES for x25519 and x448''))"
    using SerializeEncryptedKeyAEAD_cfrg_v3_not_aes [of pub cipherFunc C w key rand] by blast
next
  assume "Version e < 6 \<and> (Algo e = PubKeyAlgoX25519 \<or> Algo e = PubKeyAlgoX448) \<and>
    CipherFunc e \<noteq> CipherAES128 \<and> CipherFunc e \<noteq> CipherAES192 \<and> CipherFunc e \<noteq> CipherAES256"
  then show "\<exists>err. Decrypt C e priv = Returns (e, Some err)"
    using Decrypt_cfrg_v3_not_aes_fails [of e C priv] by blast
next
  assume "Version e < 6 \<and> (Algo e = PubKeyAlgoX25519 \<or> Algo e = PubKeyAlgoX448) \<and>
    CipherFunc e \<noteq> CipherAES128 \<and> CipherFunc e \<noteq> CipherAES192 \<and> CipherFunc e \<noteq> CipherAES256"
    and "(KeyId e = 0 \<or> KeyId e = pubKeyId priv) \<and> Algo e = PubKeyAlgo priv \<and> \<not> Dummy priv \<and>
       decryptPrimitive C e priv = Returns (Inr b)"
  then show "Decrypt C e priv = Returns (e, Some (StructuralError
           ''v3 PKESK mandates AES as cipher function for x25519 and x448''))"
    using Decrypt_cfrg_v3_not_aes_structural [of e priv C b] by blast
qed

theorem cfrg_v3_mandates_aes_witness:
  "SerializeEncryptedKeyAEAD testCollaborators [1, 2, 3]
     (testPublicKey PubKeyAlgoX25519 4 (replicate 20 7)) (CipherOther 3) False
     (replicate 16 9) () =
     Returns ([1, 2, 3],
       Some (InvalidArgumentError ''v3 PKESK mandates AES for x25519 and x448'')) \<and>
   Decrypt testCollaborators
     (emptyEncryptedKey\<lparr>Version := 3, KeyId := 5, Algo := PubKeyAlgoX25519,
        CipherFunc := CipherOther 3, ephemeralPublicX25519 := Some (replicate 32 1),
        encryptedSession := [1, 2, 3]\<rparr>)
     (testPrivateKey PubKeyAlgoX25519 4 (replicate 20 7) False) =
     Returns (emptyEncryptedKey\<lparr>Version := 3, KeyId := 5, Algo := PubKeyAlgoX25519,
        CipherFunc := CipherOther 3, ephemeralPublicX25519 := Some (replicate 32 1),
        encryptedSession := [1, 2, 3]\<rparr>,
       Some (StructuralError
         ''v3 PKESK mandates AES as cipher function for x25519 and x448''))"
proof -
  let ?pub = "testPublicKey PubKeyAlgoX25519 4 (replicate 20 7)"
  let ?p = "testPrivateKey PubKeyAlgoX25519 4 (replicate 20 7) False"
  let ?e = "emptyEncryptedKey\<lparr>Version := 3, KeyId := 5, Algo := PubKeyAlgoX25519,
        CipherFunc := CipherOther 3, ephemeralPublicX25519 := Some (replicate 32 1),
        encryptedSession := [1, 2, 3]\<rparr>"
  note t = cfrg_v3_mandates_aes [of ?pub "CipherOther 3" testCollaborators "[1, 2, 3]"
      "replicate 16 9" "()" ?e ?p "[1, 2, 3]"]
  have h1: "(PubKeyAlgo ?pub = PubKeyAlgoX25519 \<or> PubKeyAlgo ?pub = PubKeyAlgoX448) \<and>
      CipherOther 3 \<noteq> CipherAES128 \<and> CipherOther 3 \<noteq> CipherAES192 \<and>
      CipherOther 3 \<noteq> CipherAES256"
    by (simp add: testPublicKey_def)
  have h2: "Version ?e < 6 \<and> (Algo ?e = PubKeyAlgoX25519 \<or> Algo ?e = PubKeyAlgoX448) \<and>
      CipherFunc ?e \<noteq> CipherAES128 \<and> CipherFunc ?e \<noteq> CipherAES192 \<and>
      CipherFunc ?e \<noteq> CipherAES256"
    by simp
  have p: "PubKeyAlgo ?p = PubKeyAlgoX25519" "\<not> Dummy ?p" "pubKeyId ?p = 5"
    by (simp_all add: testPrivateKey_def)
  have "decryptPrimitive testCollaborators ?e ?p = Returns (Inr [1, 2, 3])"
    by (simp add: decryptPrimitive_def p testCollaborators_def)
  then have h3: "(KeyId ?e = 0 \<or> KeyId ?e = pubKeyId ?p) \<and> Algo ?e = PubKeyAlgo ?p \<and>
      \<not> Dummy ?p \<and> decryptPrimitive testCollaborators ?e ?p = Returns (Inr [1, 2, 3])"
    by (simp add: p)
  from t [THEN conjunct1, THEN mp, OF h1]
    t [THEN conjunct2, THEN mp, OF h2, THEN conjunct2, THEN mp, OF h3]
  show ?thesis by (rule conjI)
qed

section \<open>Claims about parse\<close>






















section \<open>Claims about the round trip of the session key\<close>

lemma pkeskKeyBlock_kyber:
  "algo \<in> kyberAlgorithms \<Longrightarrow> pkeskKeyBlock C version algo cipherFunc key = Returns []"
  by (auto simp: kyberAlgorithms_def pkeskKeyBlock_def Let_def)

lemma SerializeEncryptedKeyAEAD_kyber_ignores_key:
  assumes "PubKeyAlgo pub \<in> kyberAlgorithms"
  shows "SerializeEncryptedKeyAEAD C w pub cipherFunc aeadSupported key rand =
         SerializeEncryptedKeyAEAD C w pub cipherFunc aeadSupported key' rand"
  by (simp only: SerializeEncryptedKeyAEAD_def pkeskKeyBlock_kyber [OF assms])

lemma stripEnvelope_kyber:
  "PubKeyAlgo priv \<in> kyberAlgorithms \<Longrightarrow>
   stripEnvelope C e priv b = Returns (e\<lparr>Key := None\<rparr>, None)"
  by (auto simp: kyberAlgorithms_def stripEnvelope_def)

lemma Decrypt_kyber_no_key:
  assumes k: "PubKeyAlgo priv \<in> kyberAlgorithms"
    and d: "Decrypt C e priv = Returns (e', err)"
  shows "(err = None \<longrightarrow> Key e' = None) \<and> (err \<noteq> None \<longrightarrow> e' = e)"
proof (cases "\<not> (Version e < 6 \<and> KeyId e \<noteq> 0 \<and> KeyId e \<noteq> pubKeyId priv) \<and>
              \<not> (Version e = 6 \<and> KeyVersion e \<noteq> 0 \<and> KeyFingerprint e \<noteq> Fingerprint priv) \<and>
              Algo e = PubKeyAlgo priv \<and> \<not> Dummy priv")
  case True
  then have ok: "\<not> (Version e < 6 \<and> KeyId e \<noteq> 0 \<and> KeyId e \<noteq> pubKeyId priv)"
    "\<not> (Version e = 6 \<and> KeyVersion e \<noteq> 0 \<and> KeyFingerprint e \<noteq> Fingerprint priv)"
    "Algo e = PubKeyAlgo priv" "\<not> Dummy priv"
    by auto
  show ?thesis
  proof (cases "decryptPrimitive C e priv")
    case Panics
    with d Decrypt_checks_ok [OF ok, of C] show ?thesis by simp
  next
    case (Returns res)
    show ?thesis
    proof (cases res)
      case (Inl x)
      with d Returns Decrypt_checks_ok [OF ok, of C] show ?thesis by auto
    next
      case (Inr b)
      with d Returns Decrypt_checks_ok [OF ok, of C] stripEnvelope_kyber [OF k, of C e b]
      show ?thesis by auto
    qed
  qed
next
  case False
  with d show ?thesis by (auto simp: Decrypt_def split: if_splits)
qed

text \<open>
  Claim C1 fails for the Kyber hybrids. \<open>SerializeEncryptedKeyAEAD\<close> assigns the key block
  in the cases of RSA, ElGamal, ECDH, X25519 and X448 only, so for a Kyber algorithm the
  primitive encrypts the nil key block and what is written does not depend on the session
  key. \<open>Decrypt\<close> assigns \<open>key\<close> in the same cases only, so for a Kyber private key a
  call that returns no error has set \<open>Key\<close> to nil, whatever plaintext the primitive
  returned. The session key is not recovered.
\<close>

theorem kyber_session_key_lost:
  "(PubKeyAlgo pub \<in> kyberAlgorithms \<longrightarrow>
      SerializeEncryptedKeyAEAD C w pub cipherFunc aeadSupported key rand =
      SerializeEncryptedKeyAEAD C w pub cipherFunc aeadSupported [] rand) \<and>
   (PubKeyAlgo priv \<in> kyberAlgorithms \<and> Decrypt C e priv = Returns (e', None) \<longrightarrow>
      Key e' = None)"
  using SerializeEncryptedKeyAEAD_kyber_ignores_key [of pub C w cipherFunc aeadSupported key rand "[]"]
    Decrypt_kyber_no_key [of priv C e e' None]
  by blast


lemma PutUint64_5: "PutUint64 5 = [0, 0, 0, 0, 0, 0, 0, 5]"
  by (simp add: PutUint64_def drop_bit_eq_div)

lemma test_kyber_serialize:
  "SerializeEncryptedKeyAEAD testCollaborators []
     (testPublicKey PubKeyAlgoKyber768X25519 6 (replicate 32 7)) CipherAES128 False key () =
   Returns ([193, 4, 107] @ ([3, 0, 0, 0, 0, 0, 0, 0, 5, 29] @ replicate 32 1 @ replicate 1088 2 @ [0]),
            None)"
  by (simp add: SerializeEncryptedKeyAEAD_def pkeskHeader_def pkeskKeyBlock_def
      serializeEncryptedKeyKyber_def testPublicKey_def testCollaborators_def
      testByteOfAlgo_def PutUint64_5 NewOctetArray_def NewOID_def EncodedLength_def Let_def)

lemma test_kyber_parse:
  "parse testCollaborators emptyEncryptedKey
     ([3, 0, 0, 0, 0, 0, 0, 0, 5, 29] @ replicate 32 1 @ replicate 1088 2 @ [0]) =
   Inr (emptyEncryptedKey\<lparr>Version := 3, KeyId := 5, Algo := PubKeyAlgoKyber768X25519,
          encryptedMPI1 := Some (OctetArray (replicate 32 1)),
          encryptedMPI2 := Some (OctetArray (replicate 1088 2)),
          encryptedMPI3 := Some (OID [])\<rparr>)"
  by (simp add: parse_def readFull_def parseKeyIdentification_def parseFields_def
      readKyberECDHKey_def octetArrayReadFrom_def oidReadFrom_def consumeAll_def Uint64_def
      testCollaborators_def testAlgoOfByte_def emptyEncryptedKey_def Let_def)


lemma test_kyber_decrypt:
  "Decrypt testCollaborators
     (emptyEncryptedKey\<lparr>Version := 3, KeyId := 5, Algo := PubKeyAlgoKyber768X25519,
          encryptedMPI1 := Some (OctetArray (replicate 32 1)),
          encryptedMPI2 := Some (OctetArray (replicate 1088 2)),
          encryptedMPI3 := Some (OID [])\<rparr>)
     (testPrivateKey PubKeyAlgoKyber768X25519 6 (replicate 32 7) False) =
   Returns (emptyEncryptedKey\<lparr>Version := 3, KeyId := 5, Algo := PubKeyAlgoKyber768X25519,
          encryptedMPI1 := Some (OctetArray (replicate 32 1)),
          encryptedMPI2 := Some (OctetArray (replicate 1088 2)),
          encryptedMPI3 := Some (OID []), Key := None\<rparr>, None)"
proof -
  let ?p = "testPrivateKey PubKeyAlgoKyber768X25519 6 (replicate 32 7) False"
  let ?e = "emptyEncryptedKey\<lparr>Version := 3, KeyId := 5, Algo := PubKeyAlgoKyber768X25519,
          encryptedMPI1 := Some (OctetArray (replicate 32 1)),
          encryptedMPI2 := Some (OctetArray (replicate 1088 2)),
          encryptedMPI3 := Some (OID [])\<rparr>"
  have p: "PubKeyAlgo ?p = PubKeyAlgoKyber768X25519" "\<not> Dummy ?p" "pubKeyId ?p = 5"
    by (simp_all add: testPrivateKey_def)
  have d: "decryptPrimitive testCollaborators ?e ?p = Returns (Inr [])"
    by (simp add: decryptPrimitive_def p testCollaborators_def)
  have k: "PubKeyAlgo ?p \<in> kyberAlgorithms"
    by (simp add: p kyberAlgorithms_def)
  have "Decrypt testCollaborators ?e ?p = stripEnvelope testCollaborators ?e ?p []"
    by (subst Decrypt_checks_ok) (simp_all add: p d)
  also have "\<dots> = Returns (?e\<lparr>Key := None\<rparr>, None)"
    by (rule stripEnvelope_kyber [OF k])
  finally show ?thesis by simp
qed

lemma test_kyber_serialize_v6:
  "SerializeEncryptedKeyAEAD testCollaborators []
     (testPublicKey PubKeyAlgoKyber768X25519 6 (replicate 32 7)) CipherAES128 True key () =
   Returns ([193, 4, 107] @
            ([6, 6] @ replicate 32 7 @ [29] @ replicate 32 1 @ replicate 1088 2 @ [0]), None) \<and>
   length ([6, 6] @ replicate 32 7 @ [29] @ replicate 32 1 @ replicate 1088 2 @ [0 :: byte]) =
     4 * 256 + 132"
  by (simp add: SerializeEncryptedKeyAEAD_def pkeskHeader_def pkeskKeyBlock_def
      serializeEncryptedKeyKyber_def testPublicKey_def testCollaborators_def
      testByteOfAlgo_def NewOctetArray_def NewOID_def EncodedLength_def Let_def)

theorem kyber_session_key_lost_witness:
  "SerializeEncryptedKeyAEAD testCollaborators []
     (testPublicKey PubKeyAlgoKyber768X25519 6 (replicate 32 7)) CipherAES128 False
     (replicate 16 9) () =
   Returns ([193, 4, 107] @ ([3, 0, 0, 0, 0, 0, 0, 0, 5, 29] @ replicate 32 1 @ replicate 1088 2 @ [0]),
            None) \<and>
   SerializeEncryptedKeyAEAD testCollaborators []
     (testPublicKey PubKeyAlgoKyber768X25519 6 (replicate 32 7)) CipherAES128 False
     (replicate 16 9) () =
   SerializeEncryptedKeyAEAD testCollaborators []
     (testPublicKey PubKeyAlgoKyber768X25519 6 (replicate 32 7)) CipherAES128 False [] () \<and>
   parse testCollaborators emptyEncryptedKey
     ([3, 0, 0, 0, 0, 0, 0, 0, 5, 29] @ replicate 32 1 @ replicate 1088 2 @ [0]) =
   Inr (emptyEncryptedKey\<lparr>Version := 3, KeyId := 5, Algo := PubKeyAlgoKyber768X25519,
          encryptedMPI1 := Some (OctetArray (replicate 32 1)),
          encryptedMPI2 := Some (OctetArray (replicate 1088 2)),
          encryptedMPI3 := Some (OID [])\<rparr>) \<and>
   Decrypt testCollaborators
     (emptyEncryptedKey\<lparr>Version := 3, KeyId := 5, Algo := PubKeyAlgoKyber768X25519,
          encryptedMPI1 := Some (OctetArray (replicate 32 1)),
          encryptedMPI2 := Some (OctetArray (replicate 1088 2)),
          encryptedMPI3 := Some (OID [])\<rparr>)
     (testPrivateKey PubKeyAlgoKyber768X25519 6 (replicate 32 7) False) =
   Returns (emptyEncryptedKey\<lparr>Version := 3, KeyId := 5, Algo := PubKeyAlgoKyber768X25519,
          encryptedMPI1 := Some (OctetArray (replicate 32 1)),
          encryptedMPI2 := Some (OctetArray (replicate 1088 2)),
          encryptedMPI3 := Some (OID []), Key := None\<rparr>, None) \<and>
   Key (emptyEncryptedKey\<lparr>Version := 3, KeyId := 5, Algo := PubKeyAlgoKyber768X25519,
          encryptedMPI1 := Some (OctetArray (replicate 32 1)),
          encryptedMPI2 := Some (OctetArray (replicate 1088 2)),
          encryptedMPI3 := Some (OID []), Key := None\<rparr>) = None"
proof -
  let ?pub = "testPublicKey PubKeyAlgoKyber768X25519 6 (replicate 32 7)"
  let ?p = "testPrivateKey PubKeyAlgoKyber768X25519 6 (replicate 32 7) False"
  let ?e = "emptyEncryptedKey\<lparr>Version := 3, KeyId := 5, Algo := PubKeyAlgoKyber768X25519,
          encryptedMPI1 := Some (OctetArray (replicate 32 1)),
          encryptedMPI2 := Some (OctetArray (replicate 1088 2)),
          encryptedMPI3 := Some (OID [])\<rparr>"
  note t = kyber_session_key_lost [of ?pub testCollaborators "[]" CipherAES128 False
      "replicate 16 9" "()" ?p ?e "?e\<lparr>Key := None\<rparr>"]
  have h1: "PubKeyAlgo ?pub \<in> kyberAlgorithms"
    by (simp add: testPublicKey_def kyberAlgorithms_def)
  have h2: "PubKeyAlgo ?p \<in> kyberAlgorithms \<and>
      Decrypt testCollaborators ?e ?p = Returns (?e\<lparr>Key := None\<rparr>, None)"
    using test_kyber_decrypt by (simp add: testPrivateKey_def kyberAlgorithms_def)
  from test_kyber_serialize [of "replicate 16 9"] t [THEN conjunct1, THEN mp, OF h1]
    test_kyber_parse test_kyber_decrypt t [THEN conjunct2, THEN mp, OF h2]
  show ?thesis by (intro conjI)
qed

section \<open>Claims about generateRSAKeyWithPrimes\<close>

lemma bezw_int:
  assumes "0 \<le> a" and "0 \<le> b"
  shows "fst (bezw (nat a) (nat b)) * a + snd (bezw (nat a) (nat b)) * b = gcd a b"
proof -
  have "int (gcd (nat a) (nat b)) =
        fst (bezw (nat a) (nat b)) * int (nat a) + snd (bezw (nat a) (nat b)) * int (nat b)"
    by (rule bezw_aux)
  moreover have "int (nat a) = a" "int (nat b) = b"
    using assms by simp_all
  moreover have "int (gcd (nat a) (nat b)) = gcd a b"
    using assms by (simp only: gcd_int_def abs_of_nonneg)
  ultimately show ?thesis by (simp only:)
qed

lemma ModInverse_dvd:
  assumes "ModInverse g n = Some d" and "0 \<le> g"
  shows "n dvd d * g - 1"
proof -
  define n1 where "n1 = \<bar>n\<bar>"
  define x where "x = fst (bezw (nat g) (nat n1))"
  define y where "y = snd (bezw (nat g) (nat n1))"
  have n1: "0 \<le> n1" by (simp add: n1_def)
  from assms have g1: "gcd g n1 = 1" and d: "d = x mod n1"
    by (auto simp: ModInverse_def Let_def n1_def x_def split: if_splits)
  have bez: "x * g + y * n1 = 1"
    using bezw_int [OF assms(2) n1] g1 by (simp only: x_def y_def)
  have "x * g - 1 = n1 * (- y)"
    using bez by (simp add: algebra_simps)
  then have a: "n1 dvd x * g - 1"
    by (rule dvdI)
  have "(n1 * (x div n1) + x mod n1) * g = x * g"
    by (simp only: mult_div_mod_eq)
  then have "n1 * ((x div n1) * g) + (x mod n1) * g = x * g"
    by (simp only: distrib_right mult.assoc)
  then have "(x mod n1) * g - 1 = (x * g - 1) - n1 * ((x div n1) * g)"
    by simp
  moreover have "n1 dvd (x * g - 1) - n1 * ((x div n1) * g)"
    using a by (rule dvd_diff) simp
  ultimately have "n1 dvd d * g - 1" by (simp only: d)
  then show ?thesis by (simp add: n1_def)
qed

lemma ModInverse_mod:
  assumes "ModInverse g n = Some d" and "0 \<le> g"
  shows "(d * g) mod n = 1 mod n"
  using ModInverse_dvd [OF assms] by (simp add: mod_eq_dvd_iff)

lemma drawPrimes_structure:
  assumes "drawPrimes Prime k todo random prepop acc = Inr (primes, random1, prepop1)"
    and "primeSource Prime"
  shows "\<exists>new. primes = acc @ new \<and> length new = k \<and>
           take (min k (length prepop)) new = take (min k (length prepop)) prepop \<and>
           prepop1 = drop (min k (length prepop)) prepop \<and>
           (\<forall>i<k. min k (length prepop) \<le> i \<longrightarrow>
              isPrime (new ! i) \<and>
              bigBitLen (new ! i) =
                (todo - sum_list (map bigBitLen (take i new))) sdiv (int k - int i))"
  using assms
proof (induction Prime k todo random prepop acc arbitrary: primes random1 prepop1
       rule: drawPrimes.induct)
  case (1 Prime todo random prepopulatedPrimes primes0)
  then show ?case by simp
next
  case (2 Prime k todo random primes0)
  from "2.prems"(1) obtain p r1 where pr: "Prime random (todo sdiv int (Suc k)) = Inr (p, r1)"
    by (auto split: sum.splits)
  with "2.prems"(1) have rec: "drawPrimes Prime k (todo - bigBitLen p) r1 [] (primes0 @ [p]) =
      Inr (primes, random1, prepop1)"
    by simp
  from "2.IH" [OF pr refl rec "2.prems"(2)] obtain new where
    n1: "primes = (primes0 @ [p]) @ new" and n2: "length new = k"
    and n4: "prepop1 = []"
    and n5: "\<forall>i<k. isPrime (new ! i) \<and>
              bigBitLen (new ! i) =
                (todo - bigBitLen p - sum_list (map bigBitLen (take i new))) sdiv (int k - int i)"
    by auto
  from pr "2.prems"(2) have pp: "isPrime p \<and> bigBitLen p = todo sdiv int (Suc k)"
    unfolding primeSource_def by blast
  show ?case
  proof (intro exI [of _ "p # new"] conjI allI impI)
    show "primes = primes0 @ p # new" using n1 by simp
    show "length (p # new) = Suc k" using n2 by simp
    show "take (min (Suc k) (length [])) (p # new) = take (min (Suc k) (length [])) []" by simp
    show "prepop1 = drop (min (Suc k) (length [])) []" using n4 by simp
  next
    fix i assume i: "i < Suc k"
    show "isPrime ((p # new) ! i)"
      using i n5 pp by (cases i) auto
    show "bigBitLen ((p # new) ! i) =
        (todo - sum_list (map bigBitLen (take i (p # new)))) sdiv (int (Suc k) - int i)"
    proof (cases i)
      case 0
      then show ?thesis using pp by simp
    next
      case (Suc j)
      with i have "j < k" by simp
      with n5 have "bigBitLen (new ! j) =
          (todo - bigBitLen p - sum_list (map bigBitLen (take j new))) sdiv (int k - int j)"
        by blast
      moreover have "todo - bigBitLen p - sum_list (map bigBitLen (take j new)) =
          todo - sum_list (map bigBitLen (take (Suc j) (p # new)))"
        by simp
      ultimately show ?thesis using Suc by simp
    qed
  qed
next
  case (3 Prime k todo random p rest primes0)
  from "3.prems"(1) have rec: "drawPrimes Prime k (todo - bigBitLen p) random rest (primes0 @ [p]) =
      Inr (primes, random1, prepop1)"
    by simp
  let ?m = "min k (length rest)"
  from "3.IH" [OF rec "3.prems"(2)] obtain new where
    n1: "primes = (primes0 @ [p]) @ new" and n2: "length new = k"
    and n3: "take ?m new = take ?m rest"
    and n4: "prepop1 = drop ?m rest"
    and n5: "\<forall>i<k. ?m \<le> i \<longrightarrow> isPrime (new ! i) \<and>
              bigBitLen (new ! i) =
                (todo - bigBitLen p - sum_list (map bigBitLen (take i new))) sdiv (int k - int i)"
    by auto
  have m: "min (Suc k) (length (p # rest)) = Suc ?m" by simp
  show ?case
  proof (intro exI [of _ "p # new"] conjI allI impI)
    show "primes = primes0 @ p # new" using n1 by simp
    show "length (p # new) = Suc k" using n2 by simp
    show "take (min (Suc k) (length (p # rest))) (p # new) =
          take (min (Suc k) (length (p # rest))) (p # rest)"
      unfolding m using n3 by simp
    show "prepop1 = drop (min (Suc k) (length (p # rest))) (p # rest)"
      unfolding m using n4 by simp
  next
    fix i assume i: "i < Suc k" and mi: "min (Suc k) (length (p # rest)) \<le> i"
    from mi obtain j where j: "i = Suc j" "?m \<le> j"
      unfolding m by (cases i) auto
    with i have jk: "j < k" by simp
    from n5 jk j have h: "isPrime (new ! j)" "bigBitLen (new ! j) =
          (todo - bigBitLen p - sum_list (map bigBitLen (take j new))) sdiv (int k - int j)"
      by blast+
    show "isPrime ((p # new) ! i)" using h j by simp
    have "todo - bigBitLen p - sum_list (map bigBitLen (take j new)) =
          todo - sum_list (map bigBitLen (take (Suc j) (p # new)))"
      by simp
    with h show "bigBitLen ((p # new) ! i) =
        (todo - sum_list (map bigBitLen (take i (p # new)))) sdiv (int (Suc k) - int i)"
      using j by simp
  qed
qed

lemma keyOk_next:
  assumes "keyOk fuel nprimes bits (drop (min (nat nprimes) (length prepop)) prepop) key"
  shows "keyOk (Suc fuel) nprimes bits prepop key"
proof -
  let ?n = "nat nprimes"
  let ?a = "min ?n (length prepop)"
  from assms obtain k where k: "k < fuel"
    and t: "take (min ?n (length (drop ?a prepop) - k * ?n)) (Primes key) =
            take (min ?n (length (drop ?a prepop) - k * ?n)) (drop (k * ?n) (drop ?a prepop))"
    and b: "\<forall>i < ?n. min ?n (length (drop ?a prepop) - k * ?n) \<le> i \<longrightarrow>
            bigBitLen (Primes key ! i) =
              (initialTodo nprimes bits - sum_list (map bigBitLen (take i (Primes key))))
                sdiv (nprimes - int i)"
    unfolding keyOk_def by blast
  have m: "min ?n (length (drop ?a prepop) - k * ?n) = min ?n (length prepop - Suc k * ?n)"
    by (cases "?n \<le> length prepop") (simp_all add: min_def)
  have d: "take (min ?n (length prepop - Suc k * ?n)) (drop (k * ?n) (drop ?a prepop)) =
           take (min ?n (length prepop - Suc k * ?n)) (drop (Suc k * ?n) prepop)"
  proof (cases "?n \<le> length prepop")
    case True
    then have "?a = ?n" by simp
    then show ?thesis by (simp add: add.commute)
  next
    case False
    then have "length prepop - Suc k * ?n = 0" by simp
    then show ?thesis by simp
  qed
  have "Suc k < Suc fuel" using k by simp
  moreover have "take (min ?n (length prepop - Suc k * ?n)) (Primes key) =
      take (min ?n (length prepop - Suc k * ?n)) (drop (Suc k * ?n) prepop)"
    using t unfolding m d .
  moreover have "\<forall>i < ?n. min ?n (length prepop - Suc k * ?n) \<le> i \<longrightarrow>
            bigBitLen (Primes key ! i) =
              (initialTodo nprimes bits - sum_list (map bigBitLen (take i (Primes key))))
                sdiv (nprimes - int i)"
    using b unfolding m .
  ultimately have "\<exists>k < Suc fuel. \<exists>m.
         m = min ?n (length prepop - k * ?n) \<and>
         take m (Primes key) = take m (drop (k * ?n) prepop) \<and>
         (\<forall>i < ?n. m \<le> i \<longrightarrow>
            bigBitLen (Primes key ! i) =
              (initialTodo nprimes bits - sum_list (map bigBitLen (take i (Primes key))))
                sdiv (nprimes - int i))"
    by blast
  with assms show ?thesis
    unfolding keyOk_def by blast
qed

lemma drawPrimes_key:
  assumes dp: "drawPrimes Prime (nat nprimes) (initialTodo nprimes bits) random prepop [] =
                 Inr (primes, random1, prepop1)"
    and ps: "primeSource Prime"
    and pre: "\<forall>p \<in> set prepop. isPrime p"
    and dist: "distinct primes"
    and bl: "bigBitLen (prod_list primes) = bits"
    and inv: "ModInverse 65537 (prod_list (map (\<lambda>prime. prime - 1) primes)) = Some d"
  shows "keyOk (Suc fuel) nprimes bits prepop
           \<lparr> N = prod_list primes, E = 65537, D = d, Primes = primes \<rparr>"
proof -
  let ?k = "nat nprimes"
  let ?m = "min ?k (length prepop)"
  from drawPrimes_structure [OF dp ps] obtain new where
    n1: "primes = new" and n2: "length new = ?k"
    and n3: "take ?m new = take ?m prepop"
    and n5: "\<forall>i<?k. ?m \<le> i \<longrightarrow> isPrime (new ! i) \<and>
              bigBitLen (new ! i) =
                (initialTodo nprimes bits - sum_list (map bigBitLen (take i new)))
                  sdiv (int ?k - int i)"
    by auto
  have sub: "set (take ?m primes) \<subseteq> set prepop"
    unfolding n1 n3 by (rule set_take_subset)
  have prime_all: "\<forall>p \<in> set primes. isPrime p"
  proof
    fix p assume "p \<in> set primes"
    then obtain i where i: "i < length primes" "primes ! i = p"
      by (auto simp: in_set_conv_nth)
    show "isPrime p"
    proof (cases "i < ?m")
      case True
      then have "primes ! i = take ?m primes ! i" by simp
      also have "\<dots> \<in> set (take ?m primes)"
        using True i(1) by (intro nth_mem) simp
      finally show ?thesis using sub pre i(2) by auto
    next
      case False
      then show ?thesis using n5 i n1 n2 by auto
    qed
  qed
  have budget: "\<forall>i < ?k. ?m \<le> i \<longrightarrow>
            bigBitLen (primes ! i) =
              (initialTodo nprimes bits - sum_list (map bigBitLen (take i primes)))
                sdiv (nprimes - int i)"
  proof (intro allI impI)
    fix i assume i: "i < ?k" "?m \<le> i"
    then have "int ?k = nprimes" by simp
    with n5 i show "bigBitLen (primes ! i) =
              (initialTodo nprimes bits - sum_list (map bigBitLen (take i primes)))
                sdiv (nprimes - int i)"
      unfolding n1 by metis
  qed
  have de: "(d * 65537) mod prod_list (map (\<lambda>p. p - 1) primes) =
        1 mod prod_list (map (\<lambda>p. p - 1) primes)"
    by (rule ModInverse_mod [OF inv]) simp
  have m0: "min ?k (length prepop - 0 * ?k) = ?m" by simp
  have t0: "take ?m primes = take ?m (drop (0 * ?k) prepop)"
    using n3 n1 by simp
  have "(0 :: nat) < Suc fuel" by simp
  with t0 budget have ex: "\<exists>k < Suc fuel. \<exists>m.
         m = min ?k (length prepop - k * ?k) \<and>
         take m primes = take m (drop (k * ?k) prepop) \<and>
         (\<forall>i < ?k. m \<le> i \<longrightarrow>
            bigBitLen (primes ! i) =
              (initialTodo nprimes bits - sum_list (map bigBitLen (take i primes)))
                sdiv (nprimes - int i))"
    using m0 by metis
  show ?thesis
    unfolding keyOk_def
    using n1 n2 dist prime_all bl de ex by simp
qed

lemma nextSetOfPrimes_key:
  assumes "nextSetOfPrimes fuel Prime random nprimes bits prepop = Some (Inr key)"
    and "primeSource Prime"
    and "\<forall>p \<in> set prepop. isPrime p"
  shows "keyOk fuel nprimes bits prepop key"
  using assms
proof (induction fuel arbitrary: random prepop)
  case 0
  then show ?case by simp
next
  case (Suc fuel)
  from Suc.prems(1) obtain primes random1 prepop1 where
    dp: "drawPrimes Prime (nat nprimes) (initialTodo nprimes bits) random prepop [] =
           Inr (primes, random1, prepop1)"
    by (auto split: sum.splits)
  from drawPrimes_structure [OF dp Suc.prems(2)]
  have rest: "prepop1 = drop (min (nat nprimes) (length prepop)) prepop"
    by blast
  have "set prepop1 \<subseteq> set prepop"
    unfolding rest by (rule set_drop_subset)
  with Suc.prems(3) have pre1: "\<forall>p \<in> set prepop1. isPrime p" by blast
  have again: "keyOk (Suc fuel) nprimes bits prepop key"
    if "nextSetOfPrimes fuel Prime random1 nprimes bits prepop1 = Some (Inr key)"
    using Suc.IH [OF that Suc.prems(2) pre1] unfolding rest by (rule keyOk_next)
  show ?case
  proof (cases "distinct primes \<and> bigBitLen (prod_list primes) = bits")
    case False
    with Suc.prems(1) dp
    have "nextSetOfPrimes fuel Prime random1 nprimes bits prepop1 = Some (Inr key)"
      by (auto simp: Let_def split: if_splits)
    then show ?thesis by (rule again)
  next
    case True
    show ?thesis
    proof (cases "ModInverse 65537 (prod_list (map (\<lambda>prime. prime - 1) primes))")
      case None
      with True Suc.prems(1) dp
      have "nextSetOfPrimes fuel Prime random1 nprimes bits prepop1 = Some (Inr key)"
        by (simp add: Let_def)
      then show ?thesis by (rule again)
    next
      case (Some d)
      with True Suc.prems(1) dp
      have key: "key = \<lparr> N = prod_list primes, E = 65537, D = d, Primes = primes \<rparr>"
        by (simp add: Let_def)
      show ?thesis
        unfolding key
        using drawPrimes_key [OF dp Suc.prems(2) Suc.prems(3) _ _ Some] True by blast
    qed
  qed
qed

lemma isPrime_trial:
  assumes "1 < p" and "noDivisorUpTo k p" and "p < (k + 1) * (k + 1)" and "0 \<le> k"
  shows "isPrime p"
  unfolding isPrime_def
proof (intro conjI allI impI)
  show "1 < p" by fact
  fix d assume d: "0 < d \<and> d dvd p"
  show "d = 1 \<or> d = p"
  proof (rule ccontr)
    assume n: "\<not> (d = 1 \<or> d = p)"
    from d obtain q where q: "p = d * q" by (auto elim: dvdE)
    from d assms(1) have dp: "d \<le> p" by (auto intro: zdvd_imp_le)
    with n d have d2: "2 \<le> d" "d < p" by auto
    from q d assms(1) have q0: "0 < q"
      by (metis mult_less_cancel_left_pos mult_zero_right less_trans zero_less_one)
    have q2: "2 \<le> q"
    proof (rule ccontr)
      assume "\<not> 2 \<le> q"
      with q0 have "q = 1" by simp
      with q d2 show False by simp
    qed
    have qd: "q dvd p" using q by simp
    have nd: "\<not> (2 \<le> d \<and> d \<le> k)" using assms(2) d unfolding noDivisorUpTo_def by auto
    have nq: "\<not> (2 \<le> q \<and> q \<le> k)" using assms(2) qd unfolding noDivisorUpTo_def by auto
    from nd d2 have dk: "k + 1 \<le> d" by simp
    from nq q2 have qk: "k + 1 \<le> q" by simp
    have k0: "0 \<le> k + 1" using assms(4) by simp
    have "(k + 1) * (k + 1) \<le> d * q"
      using dk qk k0 d by (intro mult_mono) auto
    with q assms(3) show False by simp
  qed
qed

lemma noDivisorUpTo_code: "noDivisorUpTo k p = list_all (\<lambda>d. \<not> d dvd p) [2..k]"
  by (simp add: noDivisorUpTo_def list_all_iff)

lemma testPrimes_prime: "\<forall>p \<in> set (testPrimes @ [64951]). isPrime p"
proof -
  have "list_all (\<lambda>p. 1 < p \<and> noDivisorUpTo 256 p \<and> p < (256 + 1) * (256 + 1) \<and> (0 :: int) \<le> 256)
          (testPrimes @ [64951])"
    unfolding noDivisorUpTo_code testPrimes_def by code_simp
  then show ?thesis
    unfolding list_all_iff by (blast intro: isPrime_trial)
qed

lemma drawPrimes_prepopulated:
  "drawPrimes Prime (length prepop + j) todo random prepop acc =
   drawPrimes Prime j (todo - sum_list (map bigBitLen prepop)) random [] (acc @ prepop)"
proof (induction prepop arbitrary: todo acc)
  case Nil
  then show ?case by simp
next
  case (Cons p rest)
  have "drawPrimes Prime (length (p # rest) + j) todo random (p # rest) acc =
        drawPrimes Prime (length rest + j) (todo - bigBitLen p) random rest (acc @ [p])"
    by simp
  also have "\<dots> = drawPrimes Prime j (todo - bigBitLen p - sum_list (map bigBitLen rest))
                    random [] ((acc @ [p]) @ rest)"
    by (rule Cons.IH)
  finally show ?case by (simp add: algebra_simps)
qed

lemma BitLen_bounds: "2 ^ k \<le> n \<Longrightarrow> n < 2 ^ Suc k \<Longrightarrow> BitLen n = Suc k"
proof (induction k arbitrary: n)
  case 0
  then have "n = 1" by simp
  then show ?case by (simp add: BitLen.simps)
next
  case (Suc k)
  from Suc.prems have a: "2 ^ k \<le> n div 2" "n div 2 < 2 ^ Suc k" by auto
  from Suc.prems have "n \<noteq> 0" by auto
  then have "BitLen n = Suc (BitLen (n div 2))" by (subst BitLen.simps) simp
  with Suc.IH [OF a] show ?case by simp
qed

lemma bigBitLen_bounds:
  assumes "(2 :: int) ^ k \<le> x" and "x < 2 ^ Suc k"
  shows "bigBitLen x = int (Suc k)"
proof -
  have p: "0 \<le> x" using assms(1) by (rule order_trans [rotated]) simp
  have "(2 :: nat) ^ k \<le> nat x"
    using assms(1) p by (simp add: le_nat_iff)
  moreover have "nat x < 2 ^ Suc k"
    using assms(2) p by (simp add: nat_less_iff)
  ultimately have "BitLen (nat x) = Suc k"
    by (rule BitLen_bounds)
  with p show ?thesis by (simp add: bigBitLen_def)
qed

lemma testPrimes_length: "length testPrimes = 63"
  by (simp add: testPrimes_def)

lemma testPrimes_distinct: "distinct (testPrimes @ [64951])"
  by (simp add: testPrimes_def)

lemma testPrimes_bitLens:
  "map bigBitLen testPrimes = replicate 12 17 @ replicate 51 16"
proof -
  have a: "bigBitLen x = 17" if "2 ^ 16 \<le> x" "x < 2 ^ Suc 16" for x
    using bigBitLen_bounds [OF that] by simp
  have b: "bigBitLen x = 16" if "2 ^ 15 \<le> x" "x < 2 ^ Suc 15" for x
    using bigBitLen_bounds [OF that] by simp
  show ?thesis
    unfolding testPrimes_def by (simp add: a b numeral_eq_Suc)
qed

lemma testPrimes_budget: "sum_list (map bigBitLen testPrimes) = 1020"
  unfolding testPrimes_bitLens by (simp add: sum_list_replicate)

lemma testPrime_bits: "bigBitLen 64951 = 16"
  using bigBitLen_bounds [of 15 64951] by simp

lemma testPrimes_bits: "bigBitLen (prod_list (testPrimes @ [64951])) = 1024"
proof -
  have "(2 :: int) ^ 1023 \<le> prod_list (testPrimes @ [64951])"
    and "prod_list (testPrimes @ [64951]) < (2 :: int) ^ Suc 1023"
    by (simp_all add: testPrimes_def)
  then show ?thesis
    using bigBitLen_bounds [of 1023 "prod_list (testPrimes @ [64951])"] by simp
qed

lemma testPrimes_coprime:
  "gcd (65537 :: int) \<bar>prod_list (map (\<lambda>prime. prime - 1) (testPrimes @ [64951]))\<bar> = 1"
  unfolding testPrimes_def by code_simp

lemma testPrimes_ModInverse:
  "\<exists>d. ModInverse 65537 (prod_list (map (\<lambda>prime. prime - 1) (testPrimes @ [64951]))) = Some d"
  using testPrimes_coprime by (simp add: ModInverse_def Let_def)

lemma primeSource_testPrime: "primeSource testPrime"
proof -
  have "isPrime 64951"
    using testPrimes_prime by simp
  then show ?thesis
    using testPrime_bits by (auto simp: primeSource_def testPrime_def split: if_splits)
qed

lemma drawPrimes_testPrimes:
  "drawPrimes testPrime (nat 64) (initialTodo 64 1024) 0 testPrimes [] =
     Inr (testPrimes @ [64951], Suc 0, [])"
proof -
  have "drawPrimes testPrime (length testPrimes + 1) (initialTodo 64 1024) 0 testPrimes [] =
        drawPrimes testPrime 1 (initialTodo 64 1024 - sum_list (map bigBitLen testPrimes)) 0 []
          ([] @ testPrimes)"
    by (rule drawPrimes_prepopulated)
  also have "\<dots> = drawPrimes testPrime (Suc 0) 16 0 [] testPrimes"
    by (simp add: testPrimes_budget initialTodo_def)
  also have "\<dots> = Inr (testPrimes @ [64951], Suc 0, [])"
    by (simp add: testPrime_def)
  finally show ?thesis
    by (simp add: testPrimes_length)
qed

text \<open>
  Claim C6. Whenever \<open>generateRSAKeyWithPrimes\<close> returns a key, then \<open>nprimes\<close> is at
  least 2 and \<open>bits\<close> at least 1024, and the key has \<open>nprimes\<close> pairwise distinct
  factors whose product is \<open>N\<close>, \<open>N\<close> has exactly \<open>bits\<close> bits, \<open>E\<close> is 65537 and
  \<open>D * E\<close> is congruent to 1 modulo the product of the \<open>p - 1\<close>. The factors are prime
  when \<open>rand.Prime\<close> keeps its contract and the prepopulated values are prime. The
  iteration that returns comes after \<open>k\<close> others, which used up \<open>k * nprimes\<close>
  prepopulated primes; its first \<open>m\<close> primes are the next prepopulated ones, as many as
  are left and at most \<open>nprimes\<close>, and every later prime is drawn. The bit budget of the
  iteration starts at \<open>bits\<close>, plus \<open>(nprimes - 2) / 5\<close> when \<open>nprimes\<close> is at least 7,
  and each drawn prime has the bit length \<open>todo / (nprimes - i)\<close>, where \<open>todo\<close> is the
  budget less the bit lengths of the primes before it.
\<close>

theorem generateRSAKeyWithPrimes_key:
  assumes "generateRSAKeyWithPrimes fuel Prime random nprimes bits prepopulatedPrimes =
             Some (Inr key)"
    and "primeSource Prime"
    and "\<forall>p \<in> set prepopulatedPrimes. isPrime p"
  shows "2 \<le> nprimes \<and> 1024 \<le> bits \<and>
     length (Primes key) = nat nprimes \<and> distinct (Primes key) \<and>
     (\<forall>p \<in> set (Primes key). isPrime p) \<and>
     N key = prod_list (Primes key) \<and> bigBitLen (N key) = bits \<and> E key = 65537 \<and>
     (D key * E key) mod prod_list (map (\<lambda>p. p - 1) (Primes key)) =
       1 mod prod_list (map (\<lambda>p. p - 1) (Primes key)) \<and>
     (\<exists>k < fuel. \<exists>m.
        m = min (nat nprimes) (length prepopulatedPrimes - k * nat nprimes) \<and>
        take m (Primes key) = take m (drop (k * nat nprimes) prepopulatedPrimes) \<and>
        (\<forall>i < nat nprimes. m \<le> i \<longrightarrow>
           bigBitLen (Primes key ! i) =
             (bits + (if 7 \<le> nprimes then (nprimes - 2) div 5 else 0)
                - sum_list (map bigBitLen (take i (Primes key))))
               sdiv (nprimes - int i)))"
proof -
  from assms(1) have a: "2 \<le> nprimes" "1024 \<le> bits"
    and b: "nextSetOfPrimes fuel Prime random nprimes bits prepopulatedPrimes = Some (Inr key)"
    by (auto simp: generateRSAKeyWithPrimes_def split: if_splits)
  note k = nextSetOfPrimes_key [OF b assms(2,3), unfolded keyOk_def initialTodo_def]
  show ?thesis
    by (rule conjI [OF a(1) conjI [OF a(2) k]])
qed

theorem generateRSAKeyWithPrimes_key_witness:
  "\<exists>key. generateRSAKeyWithPrimes 1 testPrime 0 64 1024 testPrimes = Some (Inr key) \<and>
     take 63 (Primes key) = testPrimes \<and> Primes key ! 63 = 64951 \<and>
     bigBitLen (Primes key ! 63) =
       (1024 + (64 - 2) div 5 - sum_list (map bigBitLen (take 63 (Primes key)))) sdiv (64 - 63) \<and>
     bigBitLen (Primes key ! 63) = 16 \<and>
     length (Primes key) = 64 \<and> distinct (Primes key) \<and> list_all isPrime (Primes key) \<and>
     N key = prod_list (Primes key) \<and> bigBitLen (N key) = 1024 \<and> E key = 65537 \<and>
     (D key * E key) mod prod_list (map (\<lambda>p. p - 1) (Primes key)) =
       1 mod prod_list (map (\<lambda>p. p - 1) (Primes key))"
proof -
  let ?primes = "testPrimes @ [64951]"
  from testPrimes_ModInverse obtain d
    where d: "ModInverse 65537 (prod_list (map (\<lambda>prime. prime - 1) ?primes)) = Some d"
    by blast
  let ?key = "\<lparr> N = prod_list ?primes, E = 65537, D = d, Primes = ?primes \<rparr>"
  have "nextSetOfPrimes (Suc 0) testPrime 0 64 1024 testPrimes = Some (Inr ?key)"
    by (simp only: nextSetOfPrimes.simps drawPrimes_testPrimes sum.case prod.case
        testPrimes_distinct testPrimes_bits d Let_def not_True_eq_False if_False option.case
        simp_thms)
  then have ev: "generateRSAKeyWithPrimes 1 testPrime 0 64 1024 testPrimes = Some (Inr ?key)"
    by (simp add: generateRSAKeyWithPrimes_def)
  have pre: "\<forall>p \<in> set testPrimes. isPrime p"
    using testPrimes_prime by simp
  note t = generateRSAKeyWithPrimes_key [OF ev primeSource_testPrime pre]
  from t have basic: "length (Primes ?key) = nat 64" "distinct (Primes ?key)"
    "\<forall>p \<in> set (Primes ?key). isPrime p"
    "N ?key = prod_list (Primes ?key)" "bigBitLen (N ?key) = 1024" "E ?key = 65537"
    "(D ?key * E ?key) mod prod_list (map (\<lambda>p. p - 1) (Primes ?key)) =
       1 mod prod_list (map (\<lambda>p. p - 1) (Primes ?key))"
    by blast+
  from t obtain k m where k: "k < (1 :: nat)"
    and m: "m = min (nat 64) (length testPrimes - k * nat 64)"
    and tk: "take m (Primes ?key) = take m (drop (k * nat 64) testPrimes)"
    and bud: "\<forall>i < nat 64. m \<le> i \<longrightarrow>
           bigBitLen (Primes ?key ! i) =
             (1024 + (if (7 :: int) \<le> 64 then (64 - 2) div 5 else 0)
                - sum_list (map bigBitLen (take i (Primes ?key))))
               sdiv (64 - int i)"
    by blast
  from k have k0: "k = 0" by simp
  from m have m63: "m = 63" unfolding k0 by (simp add: testPrimes_length)
  from tk have first: "take 63 (Primes ?key) = testPrimes"
    unfolding k0 m63 by (simp add: testPrimes_length)
  have "(63 :: nat) < nat 64" "m \<le> 63" using m63 by simp_all
  with bud have "bigBitLen (Primes ?key ! 63) =
             (1024 + (if (7 :: int) \<le> 64 then (64 - 2) div 5 else 0)
                - sum_list (map bigBitLen (take 63 (Primes ?key))))
               sdiv (64 - int 63)"
    by blast
  then have drawn: "bigBitLen (Primes ?key ! 63) =
       (1024 + (64 - 2) div 5 - sum_list (map bigBitLen (take 63 (Primes ?key)))) sdiv (64 - 63)"
    by simp
  have last: "Primes ?key ! 63 = 64951"
    by (simp add: nth_append testPrimes_length)
  have sixteen: "bigBitLen (Primes ?key ! 63) = 16"
    using drawn unfolding first testPrimes_budget by simp
  have len: "length (Primes ?key) = 64" using basic(1) by simp
  have "list_all isPrime (Primes ?key)"
    using basic(3) unfolding list_all_iff .
  with ev first last drawn sixteen len basic show ?thesis
    by blast
qed

section \<open>Claims about key generation\<close>

lemma newSigner_dilithiumEcdsa_v4:
  "PublicKeyAlgorithm config \<in> dilithiumEcdsaAlgorithms \<Longrightarrow> \<not> V5Keys config \<Longrightarrow>
   newSigner fuel G config =
     Some (config, Inl (PlainError ''openpgp: cannot create a non-v5 dilithium_ecdsa key''))"
  by (auto simp: dilithiumEcdsaAlgorithms_def newSigner_def)

lemma newSigner_dilithiumEddsa_v4:
  "PublicKeyAlgorithm config \<in> dilithiumEddsaAlgorithms \<Longrightarrow> \<not> V5Keys config \<Longrightarrow>
   newSigner fuel G config =
     Some (config, Inl (PlainError ''openpgp: cannot create a non-v5 dilithium_eddsa key''))"
  by (auto simp: dilithiumEddsaAlgorithms_def newSigner_def)

lemma newSigner_sphincsPlus_v4:
  "PublicKeyAlgorithm config \<in> sphincsPlusAlgorithms \<Longrightarrow> \<not> V5Keys config \<Longrightarrow>
   newSigner fuel G config =
     Some (config, Inl (PlainError ''openpgp: cannot create a non-v5 sphincs+ key''))"
  by (auto simp: sphincsPlusAlgorithms_def newSigner_def)

lemma newSigner_kyber:
  "PublicKeyAlgorithm config \<in> kyberAlgorithms \<Longrightarrow>
   newSigner fuel G config =
     Some (config, Inl (InvalidArgumentError ''unsupported public key algorithm''))"
  by (auto simp: kyberAlgorithms_def newSigner_def)

lemma newDecrypter_kyber_v4:
  "PublicKeyAlgorithm config \<in> kyberAlgorithms \<Longrightarrow> \<not> V5Keys config \<Longrightarrow>
   newDecrypter fuel G config =
     Some (config, Inl (PlainError ''openpgp: cannot create a non-v5 kyber_ecdh key''))"
  by (auto simp: kyberAlgorithms_def newDecrypter_def newKyberKey_def)

lemma newDecrypter_matching_v4:
  "PublicKeyAlgorithm config \<in>
     dilithiumEcdsaAlgorithms \<union> dilithiumEddsaAlgorithms \<union> sphincsPlusAlgorithms \<Longrightarrow>
   \<not> V5Keys config \<Longrightarrow>
   newDecrypter fuel G config =
     Some (config,
       Inl (case GetMatchingKyberKem G (PublicKeyAlgorithm config) of
              Inl err \<Rightarrow> err
            | Inr pubKeyAlgo \<Rightarrow> PlainError ''openpgp: cannot create a non-v5 kyber_ecdh key''))"
  by (auto simp: dilithiumEcdsaAlgorithms_def dilithiumEddsaAlgorithms_def
      sphincsPlusAlgorithms_def newDecrypter_def newKyberKey_def split: sum.splits)

text \<open>
  Claim C2, as amended. For every config with \<open>V5Keys\<close> false: \<open>newSigner\<close> fails for
  every Dilithium hybrid and for SPHINCS+, and \<open>newDecrypter\<close> fails for every Kyber
  hybrid, every Dilithium hybrid and SPHINCS+. The error is a plain error made with
  \<open>errors.New\<close> (``openpgp: cannot create a non-v5 ... key''), not an invalid-argument
  error; for a Dilithium hybrid or SPHINCS+ \<open>newDecrypter\<close> returns the error of
  \<open>GetMatchingKyberKem\<close> instead when that lookup fails. \<open>newSigner\<close> has no Kyber case:
  it rejects a Kyber hybrid, with either key format, as the invalid argument
  ``unsupported public key algorithm''.
\<close>

theorem keygen_rejects_v4_postquantum:
  "(PublicKeyAlgorithm config \<in> dilithiumEcdsaAlgorithms \<and> \<not> V5Keys config \<longrightarrow>
      newSigner fuel G config =
        Some (config, Inl (PlainError ''openpgp: cannot create a non-v5 dilithium_ecdsa key''))) \<and>
   (PublicKeyAlgorithm config \<in> dilithiumEddsaAlgorithms \<and> \<not> V5Keys config \<longrightarrow>
      newSigner fuel G config =
        Some (config, Inl (PlainError ''openpgp: cannot create a non-v5 dilithium_eddsa key''))) \<and>
   (PublicKeyAlgorithm config \<in> sphincsPlusAlgorithms \<and> \<not> V5Keys config \<longrightarrow>
      newSigner fuel G config =
        Some (config, Inl (PlainError ''openpgp: cannot create a non-v5 sphincs+ key''))) \<and>
   (PublicKeyAlgorithm config \<in> kyberAlgorithms \<longrightarrow>
      newSigner fuel G config =
        Some (config, Inl (InvalidArgumentError ''unsupported public key algorithm''))) \<and>
   (PublicKeyAlgorithm config \<in> kyberAlgorithms \<and> \<not> V5Keys config \<longrightarrow>
      newDecrypter fuel G config =
        Some (config, Inl (PlainError ''openpgp: cannot create a non-v5 kyber_ecdh key''))) \<and>
   (PublicKeyAlgorithm config \<in>
      dilithiumEcdsaAlgorithms \<union> dilithiumEddsaAlgorithms \<union> sphincsPlusAlgorithms \<and>
    \<not> V5Keys config \<longrightarrow>
      newDecrypter fuel G config =
        Some (config,
          Inl (case GetMatchingKyberKem G (PublicKeyAlgorithm config) of
                 Inl err \<Rightarrow> err
               | Inr pubKeyAlgo \<Rightarrow>
                   PlainError ''openpgp: cannot create a non-v5 kyber_ecdh key'')))"
  using newSigner_dilithiumEcdsa_v4 [of config fuel G]
    newSigner_dilithiumEddsa_v4 [of config fuel G]
    newSigner_sphincsPlus_v4 [of config fuel G]
    newSigner_kyber [of config fuel G]
    newDecrypter_kyber_v4 [of config fuel G]
    newDecrypter_matching_v4 [of config fuel G]
  by blast

theorem newSigner_v4_dilithium_counterexample:
  "newSigner 0 testKeyGenerators (testConfig PubKeyAlgoDilithium3Ed25519) =
     Some (testConfig PubKeyAlgoDilithium3Ed25519,
           Inl (PlainError ''openpgp: cannot create a non-v5 dilithium_eddsa key''))"
  by (rule newSigner_dilithiumEddsa_v4)
    (simp_all add: testConfig_def dilithiumEddsaAlgorithms_def)

theorem keygen_rejects_v4_postquantum_witness:
  "newSigner 0 testKeyGenerators (testConfig PubKeyAlgoDilithium3p256) =
     Some (testConfig PubKeyAlgoDilithium3p256,
           Inl (PlainError ''openpgp: cannot create a non-v5 dilithium_ecdsa key'')) \<and>
   newSigner 0 testKeyGenerators (testConfig PubKeyAlgoDilithium5Ed448) =
     Some (testConfig PubKeyAlgoDilithium5Ed448,
           Inl (PlainError ''openpgp: cannot create a non-v5 dilithium_eddsa key'')) \<and>
   newSigner 0 testKeyGenerators (testConfig PubKeyAlgoSphincsPlusSha2) =
     Some (testConfig PubKeyAlgoSphincsPlusSha2,
           Inl (PlainError ''openpgp: cannot create a non-v5 sphincs+ key'')) \<and>
   newSigner 0 testKeyGenerators (testConfig PubKeyAlgoKyber768X25519) =
     Some (testConfig PubKeyAlgoKyber768X25519,
           Inl (InvalidArgumentError ''unsupported public key algorithm'')) \<and>
   newDecrypter 0 testKeyGenerators (testConfig PubKeyAlgoKyber1024X448) =
     Some (testConfig PubKeyAlgoKyber1024X448,
           Inl (PlainError ''openpgp: cannot create a non-v5 kyber_ecdh key'')) \<and>
   newDecrypter 0 testKeyGenerators (testConfig PubKeyAlgoSphincsPlusShake) =
     Some (testConfig PubKeyAlgoSphincsPlusShake,
           Inl (PlainError ''openpgp: cannot create a non-v5 kyber_ecdh key''))"
proof -
  have v: "\<And>a. \<not> V5Keys (testConfig a)" "\<And>a. PublicKeyAlgorithm (testConfig a) = a"
    by (simp_all add: testConfig_def)
  have h1: "PublicKeyAlgorithm (testConfig PubKeyAlgoDilithium3p256) \<in> dilithiumEcdsaAlgorithms \<and>
      \<not> V5Keys (testConfig PubKeyAlgoDilithium3p256)"
    by (simp add: v dilithiumEcdsaAlgorithms_def)
  have h2: "PublicKeyAlgorithm (testConfig PubKeyAlgoDilithium5Ed448) \<in> dilithiumEddsaAlgorithms \<and>
      \<not> V5Keys (testConfig PubKeyAlgoDilithium5Ed448)"
    by (simp add: v dilithiumEddsaAlgorithms_def)
  have h3: "PublicKeyAlgorithm (testConfig PubKeyAlgoSphincsPlusSha2) \<in> sphincsPlusAlgorithms \<and>
      \<not> V5Keys (testConfig PubKeyAlgoSphincsPlusSha2)"
    by (simp add: v sphincsPlusAlgorithms_def)
  have h4: "PublicKeyAlgorithm (testConfig PubKeyAlgoKyber768X25519) \<in> kyberAlgorithms"
    by (simp add: v kyberAlgorithms_def)
  have h5: "PublicKeyAlgorithm (testConfig PubKeyAlgoKyber1024X448) \<in> kyberAlgorithms \<and>
      \<not> V5Keys (testConfig PubKeyAlgoKyber1024X448)"
    by (simp add: v kyberAlgorithms_def)
  have h6: "PublicKeyAlgorithm (testConfig PubKeyAlgoSphincsPlusShake) \<in>
      dilithiumEcdsaAlgorithms \<union> dilithiumEddsaAlgorithms \<union> sphincsPlusAlgorithms \<and>
      \<not> V5Keys (testConfig PubKeyAlgoSphincsPlusShake)"
    by (simp add: v sphincsPlusAlgorithms_def)
  note t = keygen_rejects_v4_postquantum [where fuel = 0 and G = testKeyGenerators]
  have c6: "newDecrypter 0 testKeyGenerators (testConfig PubKeyAlgoSphincsPlusShake) =
     Some (testConfig PubKeyAlgoSphincsPlusShake,
           Inl (PlainError ''openpgp: cannot create a non-v5 kyber_ecdh key''))"
    using t [of "testConfig PubKeyAlgoSphincsPlusShake", THEN conjunct2, THEN conjunct2,
        THEN conjunct2, THEN conjunct2, THEN conjunct2, THEN mp, OF h6]
    by (simp add: testKeyGenerators_def)
  from t [of "testConfig PubKeyAlgoDilithium3p256", THEN conjunct1, THEN mp, OF h1]
    t [of "testConfig PubKeyAlgoDilithium5Ed448", THEN conjunct2, THEN conjunct1, THEN mp, OF h2]
    t [of "testConfig PubKeyAlgoSphincsPlusSha2", THEN conjunct2, THEN conjunct2, THEN conjunct1,
        THEN mp, OF h3]
    t [of "testConfig PubKeyAlgoKyber768X25519", THEN conjunct2, THEN conjunct2, THEN conjunct2,
        THEN conjunct1, THEN mp, OF h4]
    t [of "testConfig PubKeyAlgoKyber1024X448", THEN conjunct2, THEN conjunct2, THEN conjunct2,
        THEN conjunct2, THEN conjunct1, THEN mp, OF h5]
    c6
  show ?thesis by (intro conjI)
qed

section \<open>Claims about addUserId\<close>

text \<open>
  Claim C9. For every successful \<open>addUserId\<close> the entity holds, under the id of the new
  user id, an identity whose self-signature has these preferred lists: the hash list is
  the id of \<open>config.Hash()\<close>, followed by the id of SHA-256 when the two differ; the
  symmetric list is \<open>config.Cipher()\<close>, followed by AES-128 when the two differ; the
  compression list is \<open>CompressionNone\<close>, followed by \<open>config.Compression()\<close> when that is
  not \<open>CompressionNone\<close>; the AEAD list is the mode of \<open>config.AEAD()\<close>, followed by EAX
  when the mode is not EAX.
\<close>

theorem addUserId_preferred_lists:
  assumes "addUserId X t name comment email config creationTime keyLifetimeSecs =
             Returns (t', None)"
  shows "\<exists>uid identity.
     NewUserId X name comment email = Some uid \<and>
     map_of (Identities t') (Id uid) = Some identity \<and>
     map Some (PreferredHash (SelfSignature identity)) =
       map (hashToHashId X) (Hash config # (if Hash config \<noteq> SHA256 then [SHA256] else [])) \<and>
     PreferredSymmetric (SelfSignature identity) =
       map (cipherByte X)
         (Cipher config # (if Cipher config \<noteq> CipherAES128 then [CipherAES128] else [])) \<and>
     PreferredCompression (SelfSignature identity) =
       map (compressionByte X)
         (CompressionNone #
            (if Compression config \<noteq> CompressionNone then [Compression config] else [])) \<and>
     PreferredAEAD (SelfSignature identity) =
       map (aeadModeByte X)
         (Mode X (AEAD config) #
            (if Mode X (AEAD config) \<noteq> AEADModeEAX then [AEADModeEAX] else []))"
proof -
  from assms obtain uid where uid: "NewUserId X name comment email = Some uid"
    by (auto simp: addUserId_def split: option.splits)
  from assms uid have fresh: "map_of (Identities t) (Id uid) = None"
    by (auto simp: addUserId_def split: if_splits)
  from assms uid fresh obtain h where h: "hashToHashId X (Hash config) = Some h"
    by (auto simp: addUserId_def Let_def split: option.splits)
  have h256: "\<exists>h256. hashToHashId X SHA256 = Some h256" if "Hash config \<noteq> SHA256"
    using assms uid fresh h that
    by (auto simp: addUserId_def Let_def split: option.splits)
  from assms uid fresh h show ?thesis
    by (cases "Hash config = SHA256")
      (auto simp: addUserId_def Let_def split: option.splits sum.splits dest: h256)
qed

lemma test_addUserId:
  "addUserId testEntityCollaborators testEntity ''Alice'' [] ''alice@example.org''
     (testConfig PubKeyAlgoECDSA) 0 0 =
   Returns (testEntity\<lparr>Identities :=
     [(''Alice <alice@example.org>'',
       \<lparr> Name = ''Alice <alice@example.org>'',
         identUserId = \<lparr> Id = ''Alice <alice@example.org>'', uidName = ''Alice'',
                         uidComment = [], uidEmail = ''alice@example.org'' \<rparr>,
         SelfSignature =
           \<lparr> sigVersion = 4, SigType = SigTypePositiveCert, sigPubKeyAlgo = PubKeyAlgoECDSA,
             sigHash = SHA512, CreationTime = 0, KeyLifetimeSecs = Some 0,
             IssuerKeyId = Some 5, IssuerFingerprint = replicate 20 7,
             IsPrimaryId = Some True, FlagsValid = True, FlagSign = True, FlagCertify = True,
             MDC = True, sigAEAD = False, sigV5Keys = False, PreferredHash = [10, 8],
             PreferredSymmetric = [9, 7], PreferredCompression = [0, 2],
             PreferredAEAD = [1], RawSignature = Some [1] \<rparr>,
         Signatures =
           [\<lparr> sigVersion = 4, SigType = SigTypePositiveCert, sigPubKeyAlgo = PubKeyAlgoECDSA,
              sigHash = SHA512, CreationTime = 0, KeyLifetimeSecs = Some 0,
              IssuerKeyId = Some 5, IssuerFingerprint = replicate 20 7,
              IsPrimaryId = Some True, FlagsValid = True, FlagSign = True, FlagCertify = True,
              MDC = True, sigAEAD = False, sigV5Keys = False, PreferredHash = [10, 8],
              PreferredSymmetric = [9, 7], PreferredCompression = [0, 2],
              PreferredAEAD = [1], RawSignature = Some [1] \<rparr>] \<rparr>)]\<rparr>, None)"
  by (simp add: addUserId_def testEntityCollaborators_def testEntity_def testConfig_def
      testPrivateKey_def testByteOfCipher_def Let_def)

theorem addUserId_preferred_lists_witness:
  "\<exists>t' identity.
     addUserId testEntityCollaborators testEntity ''Alice'' [] ''alice@example.org''
       (testConfig PubKeyAlgoECDSA) 0 0 = Returns (t', None) \<and>
     map_of (Identities t') ''Alice <alice@example.org>'' = Some identity \<and>
     PreferredHash (SelfSignature identity) = [10, 8] \<and>
     PreferredSymmetric (SelfSignature identity) = [9, 7] \<and>
     PreferredCompression (SelfSignature identity) = [0, 2] \<and>
     PreferredAEAD (SelfSignature identity) = [1]"
proof -
  obtain t' where ev: "addUserId testEntityCollaborators testEntity ''Alice'' []
      ''alice@example.org'' (testConfig PubKeyAlgoECDSA) 0 0 = Returns (t', None)"
    using test_addUserId by blast
  from addUserId_preferred_lists [OF ev] obtain uid identity where
    u: "NewUserId testEntityCollaborators ''Alice'' [] ''alice@example.org'' = Some uid"
    and i: "map_of (Identities t') (Id uid) = Some identity"
    and ph: "map Some (PreferredHash (SelfSignature identity)) =
       map (hashToHashId testEntityCollaborators)
         (Hash (testConfig PubKeyAlgoECDSA) #
            (if Hash (testConfig PubKeyAlgoECDSA) \<noteq> SHA256 then [SHA256] else []))"
    and ps: "PreferredSymmetric (SelfSignature identity) =
       map (cipherByte testEntityCollaborators)
         (Cipher (testConfig PubKeyAlgoECDSA) #
            (if Cipher (testConfig PubKeyAlgoECDSA) \<noteq> CipherAES128 then [CipherAES128] else []))"
    and pc: "PreferredCompression (SelfSignature identity) =
       map (compressionByte testEntityCollaborators)
         (CompressionNone #
            (if Compression (testConfig PubKeyAlgoECDSA) \<noteq> CompressionNone
             then [Compression (testConfig PubKeyAlgoECDSA)] else []))"
    and pa: "PreferredAEAD (SelfSignature identity) =
       map (aeadModeByte testEntityCollaborators)
         (Mode testEntityCollaborators (AEAD (testConfig PubKeyAlgoECDSA)) #
            (if Mode testEntityCollaborators (AEAD (testConfig PubKeyAlgoECDSA)) \<noteq> AEADModeEAX
             then [AEADModeEAX] else []))"
    by blast
  from u have id: "Id uid = ''Alice <alice@example.org>''"
    by (auto simp: testEntityCollaborators_def)
  from ph have ph': "map Some (PreferredHash (SelfSignature identity)) = map Some [10, 8]"
    by (simp add: testEntityCollaborators_def testConfig_def)
  then have "PreferredHash (SelfSignature identity) = [10, 8]"
    by (simp only: inj_map_eq_map [OF inj_Some])
  moreover from ps have "PreferredSymmetric (SelfSignature identity) = [9, 7]"
    by (simp add: testEntityCollaborators_def testConfig_def testByteOfCipher_def)
  moreover from pc have "PreferredCompression (SelfSignature identity) = [0, 2]"
    by (simp add: testEntityCollaborators_def testConfig_def)
  moreover from pa have "PreferredAEAD (SelfSignature identity) = [1]"
    by (simp add: testEntityCollaborators_def testConfig_def)
  ultimately show ?thesis using ev i id by auto
qed

end
